theory Spec2Isabelle
  imports Complex_Main "HOL-Library.Multiset"
begin

section \<open>Python values\<close>

text \<open>
  A Python \<open>str\<close> is a sequence of Unicode code points, and \<open>len\<close> counts code points:
  the model is a list of naturals. \<open>lit\<close> turns an ASCII literal into that list; code points
  beyond ASCII (the emoji of the catalog) are written by their number.
\<close>

type_synonym pystr = "nat list"

definition lit :: "string \<Rightarrow> pystr" where
  "lit cs = map of_char cs"

text \<open>The exceptions the code can raise; each carries \<open>str(e)\<close>.\<close>

datatype error =
    ValueError pystr
  | KeyError pystr
  | IndexError pystr
  | TypeError pystr
  | AttributeError pystr
  | ZeroDivisionError pystr
  | OverflowError pystr
  | HTTPException pystr

fun str_of_error :: "error \<Rightarrow> pystr" where
  "str_of_error (ValueError m) = m"
| "str_of_error (KeyError m) = m"
| "str_of_error (IndexError m) = m"
| "str_of_error (TypeError m) = m"
| "str_of_error (AttributeError m) = m"
| "str_of_error (ZeroDivisionError m) = m"
| "str_of_error (OverflowError m) = m"
| "str_of_error (HTTPException m) = m"

text \<open>\<open>repr\<close> of a string without quotes, backslashes or control characters.\<close>

definition py_repr :: "pystr \<Rightarrow> pystr" where
  "py_repr x = [39] @ x @ [39]"

text \<open>
  A dict literal is an association list in source order; where a key is written twice the
  later entry wins, as in Python.
\<close>

definition dict_lookup :: "('k \<times> 'v) list \<Rightarrow> 'k \<Rightarrow> 'v option" where
  "dict_lookup d k = map_of (rev d) k"

text \<open>\<open>xs[:n]\<close>: a negative \<open>n\<close> counts from the end.\<close>

definition slice_to :: "'a list \<Rightarrow> int \<Rightarrow> 'a list" where
  "slice_to xs n = (if 0 \<le> n then take (nat n) xs else take (length xs - nat (- n)) xs)"

definition startswith :: "pystr \<Rightarrow> pystr \<Rightarrow> bool" where
  "startswith x p = (take (length p) x = p)"

text \<open>\<open>sub in x\<close> on strings: \<open>sub\<close> occurs in \<open>x\<close> as a substring.\<close>

fun str_contains :: "pystr \<Rightarrow> pystr \<Rightarrow> bool" where
  "str_contains sub [] = (sub = [])"
| "str_contains sub (c # cs) = (startswith (c # cs) sub \<or> str_contains sub cs)"

text \<open>\<open>x.replace(old, new)\<close>: every occurrence, left to right, without overlap.\<close>

fun py_replace :: "pystr \<Rightarrow> pystr \<Rightarrow> pystr \<Rightarrow> pystr" where
  "py_replace old new [] = (if old = [] then new else [])"
| "py_replace old new (c # cs) =
     (if old = [] then new @ c # py_replace old new cs
      else if startswith (c # cs) old then new @ py_replace old new (drop (length old) (c # cs))
      else c # py_replace old new cs)"

text \<open>\<open>str(n)\<close> for a natural number: its decimal digits (the first argument bounds the
  number of digits).\<close>

fun decimal :: "nat \<Rightarrow> nat \<Rightarrow> pystr" where
  "decimal 0 n = []"
| "decimal (Suc fuel) n =
     (if n < 10 then [48 + n] else decimal fuel (n div 10) @ [48 + n mod 10])"

definition str_of_nat :: "nat \<Rightarrow> pystr" where
  "str_of_nat n = decimal (Suc n) n"

text \<open>\<open>sep.join(parts)\<close>.\<close>

fun str_join :: "pystr \<Rightarrow> pystr list \<Rightarrow> pystr" where
  "str_join sep [] = []"
| "str_join sep [x] = x"
| "str_join sep (x # y # ys) = x @ sep @ str_join sep (y # ys)"

text \<open>
  The case conversions of \<open>str\<close> and the date formatting of \<open>datetime\<close> follow the Unicode
  and calendar tables of the standard library. They are parameters of the model: every
  theorem below holds whatever these functions return.
\<close>

record pylib =
  str_lower :: "pystr \<Rightarrow> pystr"
  str_upper :: "pystr \<Rightarrow> pystr"
  str_title :: "pystr \<Rightarrow> pystr"
  strftime_date :: "int \<Rightarrow> pystr"
  strftime_day :: "int \<Rightarrow> pystr"

subsection \<open>The random source\<close>

text \<open>
  \<open>random\<close> is modelled by an oracle: the list of the raw draws still to come (a draw from
  the exhausted list is 0). Every outcome of \<open>random.choice\<close> and \<open>random.sample\<close> is the
  outcome under some oracle, and the theorems hold for every oracle.
\<close>

type_synonym rng = "nat list"

fun draw :: "rng \<Rightarrow> nat \<times> rng" where
  "draw [] = (0, [])"
| "draw (r # g) = (r, g)"

definition random_choice :: "'a list \<Rightarrow> rng \<Rightarrow> error + ('a \<times> rng)" where
  "random_choice seq g =
     (if seq = [] then Inl (IndexError (lit ''Cannot choose from an empty sequence''))
      else (case draw g of (r, g') \<Rightarrow> Inr (seq ! (r mod length seq), g')))"

text \<open>
  \<open>random.sample\<close> picks from a pool: the element at a drawn position is taken and the last
  element of the pool moves into its place.
\<close>

fun sample_pool :: "'a list \<Rightarrow> nat \<Rightarrow> rng \<Rightarrow> 'a list \<times> rng" where
  "sample_pool pool 0 g = ([], g)"
| "sample_pool pool (Suc k) g =
     (case draw g of (r, g1) \<Rightarrow>
        (let j = r mod length pool;
             x = pool ! j;
             pool' = butlast (pool[j := last pool])
         in (case sample_pool pool' k g1 of (rest, g2) \<Rightarrow> (x # rest, g2))))"

definition random_sample :: "'a list \<Rightarrow> nat \<Rightarrow> rng \<Rightarrow> error + ('a list \<times> rng)" where
  "random_sample population k g =
     (if length population < k
      then Inl (ValueError (lit ''Sample larger than population or is negative''))
      else Inr (sample_pool population k g))"

text \<open>
  \<open>list(set(xs))\<close>: the distinct elements of \<open>xs\<close> in an order the language leaves open; the
  order is taken from the oracle.
\<close>

definition list_of_set :: "'a list \<Rightarrow> rng \<Rightarrow> 'a list \<times> rng" where
  "list_of_set xs g = sample_pool (remdups xs) (length (remdups xs)) g"

section \<open>The data model\<close>

text \<open>A slide is a dict with the key \<open>type\<close> and some of \<open>number\<close>, \<open>title\<close>, \<open>text\<close>, \<open>style\<close>.\<close>

record slide =
  sl_type :: pystr
  sl_number :: "int option"
  sl_title :: "pystr option"
  sl_text :: "pystr option"
  sl_style :: "pystr option"

record ContentPiece =
  cp_content_type :: pystr
  cp_title :: pystr
  cp_slides :: "slide list"
  cp_caption :: pystr
  cp_hashtags :: "pystr list"
  cp_hook :: pystr
  cp_cta :: pystr
  cp_engagement_score :: int
  cp_best_posting_time :: pystr
  cp_brand_voice :: pystr

record BrandProfile =
  bp_name :: pystr
  bp_industry :: pystr
  bp_voice :: pystr
  bp_target_audience :: pystr
  bp_color_scheme :: "pystr list"
  bp_content_pillars :: "pystr list"
  bp_posting_frequency :: int

record carousel_template =
  tpl_structure :: "pystr list"
  tpl_titles :: "pystr list"

section \<open>Engagement score\<close>

definition emphasis_chars :: "pystr list" where
  "emphasis_chars = [[0x1F525], [0x1F4A1], [0x1F631], [0x1F447]]"

definition calculate_engagement_score :: "pystr \<Rightarrow> slide list \<Rightarrow> pystr list \<Rightarrow> int" where
  "calculate_engagement_score hook slides hashtags =
     (let score = 50;
          score = (if list_ex (\<lambda>char. str_contains char hook) emphasis_chars
                   then score + 10 else score);
          score = (if length hook < 60 then score + 5 else score);
          score = (if 5 \<le> length slides \<and> length slides \<le> 10 then score + 15 else score);
          score = (if 8 \<le> length hashtags \<and> length hashtags \<le> 15 then score + 10 else score)
      in min 100 (max 0 score))"

text \<open>The score as the specification words it, to compare with the code's.\<close>

definition emphasis_set :: "nat set" where
  "emphasis_set = {0x1F525, 0x1F4A1, 0x1F631, 0x1F447}"

definition engagement_score_spec :: "pystr \<Rightarrow> slide list \<Rightarrow> pystr list \<Rightarrow> int" where
  "engagement_score_spec hook slides hashtags =
     max 0 (min 100
       (50 + (if set hook \<inter> emphasis_set \<noteq> {} then 10 else 0)
           + (if length hook < 60 then 5 else 0)
           + (if length slides \<in> {5..10} then 15 else 0)
           + (if length hashtags \<in> {8..15} then 10 else 0)))"

section \<open>Slides\<close>

definition CAROUSEL_TEMPLATES :: "(pystr \<times> carousel_template) list" where
  "CAROUSEL_TEMPLATES =
    [(lit ''tips'',
      \<lparr>tpl_structure = [lit ''hook'', lit ''intro'', lit ''tip_1'', lit ''tip_2'', lit ''tip_3'',
                        lit ''bonus'', lit ''cta''],
       tpl_titles = [lit ''{number} {topic} Tips That Actually Work'',
                     lit ''Save These {topic} Hacks '' @ [0x1F4CC],
                     lit ''The {topic} Guide You Need'']\<rparr>),
     (lit ''mistakes'',
      \<lparr>tpl_structure = [lit ''hook'', lit ''intro'', lit ''mistake_1'', lit ''mistake_2'',
                        lit ''mistake_3'', lit ''solution'', lit ''cta''],
       tpl_titles = [lit ''Stop Making These {topic} Mistakes '' @ [0x1F6AB],
                     lit ''{number} Things Ruining Your {topic}'',
                     lit ''Mistakes Costing You {cost}'']\<rparr>),
     (lit ''steps'',
      \<lparr>tpl_structure = [lit ''hook'', lit ''intro'', lit ''step_1'', lit ''step_2'', lit ''step_3'',
                        lit ''step_4'', lit ''result'', lit ''cta''],
       tpl_titles = [lit ''How to {goal} in {number} Steps'',
                     lit ''The {topic} Blueprint '' @ [0x1F5FA, 0xFE0F],
                     lit ''From {start} to {end} (Step-by-Step)'']\<rparr>),
     (lit ''mistakes_to_success'',
      \<lparr>tpl_structure = [lit ''hook'', lit ''pain_point'', lit ''mistake_1'', lit ''mistake_2'',
                        lit ''solution'', lit ''results'', lit ''cta''],
       tpl_titles = [lit ''How I Fixed My {problem}'',
                     lit ''I Was {action} Wrong for Years '' @ [0x1F605],
                     lit ''The {topic} Glow-Up Strategy'']\<rparr>)]"

text \<open>\<open>CAROUSEL_TEMPLATES.get(template_type, CAROUSEL_TEMPLATES['tips'])\<close>.\<close>

definition get_template :: "pystr \<Rightarrow> error + carousel_template" where
  "get_template template_type =
     (case dict_lookup CAROUSEL_TEMPLATES (lit ''tips'') of
        None \<Rightarrow> Inl (KeyError (py_repr (lit ''tips'')))
      | Some dflt \<Rightarrow>
          (case dict_lookup CAROUSEL_TEMPLATES template_type of
             Some t \<Rightarrow> Inr t
           | None \<Rightarrow> Inr dflt))"

definition mk_slide ::
  "pystr \<Rightarrow> int option \<Rightarrow> pystr option \<Rightarrow> pystr option \<Rightarrow> pystr option \<Rightarrow> slide" where
  "mk_slide ty num ti tx st =
     \<lparr>sl_type = ty, sl_number = num, sl_title = ti, sl_text = tx, sl_style = st\<rparr>"

definition slide_content :: "pystr \<Rightarrow> (pystr \<times> slide) list" where
  "slide_content topic =
    [(lit ''hook'', mk_slide (lit ''hook'') None None
        (Some (lit ''The '' @ topic @ lit '' secrets'' @ [10] @ lit ''everyone needs '' @ [0x1F525]))
        (Some (lit ''bold''))),
     (lit ''intro'', mk_slide (lit ''text'') None None
        (Some (lit ''Here are the '' @ topic @ [10] @ lit ''strategies that'' @ [10]
               @ lit ''actually work '' @ [0x1F447]))
        (Some (lit ''normal''))),
     (lit ''tip_1'', mk_slide (lit ''tip'') (Some 1) (Some (lit ''Start with research''))
        (Some (lit ''Understand your '' @ topic @ lit '' before taking action'')) None),
     (lit ''tip_2'', mk_slide (lit ''tip'') (Some 2) (Some (lit ''Create systems''))
        (Some (lit ''Build repeatable '' @ topic @ lit '' processes'')) None),
     (lit ''tip_3'', mk_slide (lit ''tip'') (Some 3) (Some (lit ''Measure results''))
        (Some (lit ''Track what works in '' @ topic)) None),
     (lit ''tip_4'', mk_slide (lit ''tip'') (Some 4) (Some (lit ''Scale winners''))
        (Some (lit ''Double down on '' @ topic @ lit '' successes'')) None),
     (lit ''bonus'', mk_slide (lit ''bonus'') None (Some ([0x1F4A1] @ lit '' Pro Tip''))
        (Some (lit ''The best '' @ topic @ lit '' pros do this daily'')) None),
     (lit ''cta'', mk_slide (lit ''cta'') None None
        (Some (lit ''Follow for more'' @ [10] @ topic @ lit '' tips '' @ [0x1F525]))
        (Some (lit ''cta''))),
     (lit ''mistake_1'', mk_slide (lit ''warning'') (Some 1)
        (Some ([0x274C] @ lit '' Random guessing''))
        (Some (lit ''Never approach '' @ topic @ lit '' without a plan'')) None),
     (lit ''mistake_2'', mk_slide (lit ''warning'') (Some 2)
        (Some ([0x274C] @ lit '' Ignoring data''))
        (Some (topic @ lit '' without metrics is just guessing'')) None),
     (lit ''mistake_3'', mk_slide (lit ''warning'') (Some 3)
        (Some ([0x274C] @ lit '' Giving up early''))
        (Some (topic @ lit '' takes time - be patient'')) None),
     (lit ''solution'', mk_slide (lit ''solution'') None (Some ([0x2705] @ lit '' The Fix''))
        (Some (lit ''Use this proven '' @ topic @ lit '' framework instead'')) None),
     (lit ''step_1'', mk_slide (lit ''step'') (Some 1) (Some (lit ''Research Phase''))
        (Some (lit ''Analyze your '' @ topic @ lit '' situation thoroughly'')) None),
     (lit ''step_2'', mk_slide (lit ''step'') (Some 2) (Some (lit ''Strategy Phase''))
        (Some (lit ''Create your '' @ topic @ lit '' action plan'')) None),
     (lit ''step_3'', mk_slide (lit ''step'') (Some 3) (Some (lit ''Execution Phase''))
        (Some (lit ''Implement your '' @ topic @ lit '' strategy daily'')) None),
     (lit ''step_4'', mk_slide (lit ''step'') (Some 4) (Some (lit ''Optimization''))
        (Some (lit ''Refine your '' @ topic @ lit '' approach weekly'')) None),
     (lit ''result'', mk_slide (lit ''result'') None (Some ([0x1F389] @ lit '' Results''))
        (Some (lit ''Consistent '' @ topic @ lit '' growth within 90 days'')) None),
     (lit ''pain_point'', mk_slide (lit ''pain'') None
        (Some (lit ''Struggling with '' @ topic @ lit ''?''))
        (Some (lit ''You're not alone - here's why...'')) None),
     (lit ''results'', mk_slide (lit ''result'') None (Some (lit ''The Results '' @ [0x1F4C8]))
        (Some (topic @ lit '' transformation in just 30 days'')) None)]"

text \<open>The loop over the truncated structure: a slot without an entry is skipped.\<close>

fun append_slides :: "(pystr \<times> slide) list \<Rightarrow> pystr list \<Rightarrow> slide list \<Rightarrow> slide list" where
  "append_slides content [] slides = slides"
| "append_slides content (slide_type # rest) slides =
     (case dict_lookup content slide_type of
        Some s \<Rightarrow> append_slides content rest (slides @ [s])
      | None \<Rightarrow> append_slides content rest slides)"

definition generate_slides :: "carousel_template \<Rightarrow> pystr \<Rightarrow> int \<Rightarrow> pystr \<Rightarrow> slide list" where
  "generate_slides template topic num_slides voice =
     (let slides = [];
          structure = slice_to (tpl_structure template) num_slides
      in append_slides (slide_content topic) structure slides)"

section \<open>The template catalog\<close>

definition HOOKS :: "(pystr \<times> pystr list) list" where
  "HOOKS =
    [(lit ''ecommerce'',
      [lit ''Stop scrolling if you want to {benefit} '' @ [0x1F525],
       lit ''The {product} that changed everything for me...'',
       lit ''POV: You finally found {solution}'',
       lit ''3 {things} I wish I knew before {action}'',
       lit ''Unpopular opinion: {opinion} '' @ [0x1F447],
       lit ''Save this if you're struggling with {problem}'',
       lit ''This {product} went viral for a reason...'',
       lit ''The truth about {topic} nobody talks about'',
       lit ''Wait for the transformation... '' @ [0x1F631],
       lit ''Which one are you choosing? {options}'']),
     (lit ''saas'',
      [lit ''The {tool} that saved me {time} every week'',
       lit ''Stop doing {task} manually (do this instead)'',
       lit ''If you're not using {tool}, you're working too hard'',
       lit ''This automation changed my business forever'',
       lit ''The $0 '' @ [0x2192] @ lit '' ${amount} journey (thread) '' @ [0x1F9F5],
       lit ''Bookmark this for your next {project}'',
       lit ''Free tools that work better than paid ones:'',
       lit ''The workflow that 10x'd my productivity'']),
     (lit ''fitness'',
      [lit ''The only {exercise} you need for {goal}'',
       lit ''3 months ago vs now '' @ [0x1F4AA],
       lit ''Stop making these {number} mistakes...'',
       lit ''Your {body_part} will thank you for this'',
       lit ''The {number} minute workout that actually works'',
       lit ''Transformation Tuesday hits different when...'',
       lit ''This changed my relationship with {topic}'']),
     (lit ''food'',
      [lit ''The {number} ingredient {dish} everyone needs'',
       lit ''POV: You finally mastered {recipe}'',
       lit ''Stop ordering takeout and make this instead '' @ [0x1F468, 0x200D, 0x1F373],
       lit ''This {dish} recipe broke the internet...'',
       lit ''Meal prep Sunday just got easier'',
       lit ''The secret ingredient you never knew you needed'',
       lit ''Restaurant-quality {dish} at home '' @ [0x1F3E0]]),
     (lit ''fashion'',
      [lit ''The {item} that goes with EVERYTHING'', lit ''How to style {item} {number} ways'',
       lit ''This outfit cost less than your coffee '' @ [0x2615],
       lit ''The trend I'm taking into {season}'',
       lit ''Capsule wardrobe essentials you actually need'',
       lit ''From desk to dinner in one outfit '' @ [0x2728],
       lit ''The color combination nobody saw coming'']),
     (lit ''general'',
      [lit ''The {number} things I learned from {experience}'',
       lit ''Unpopular opinion that might help you: '' @ [0x1F447],
       lit ''If you're reading this, it's a sign to {action}'',
       lit ''The {topic} guide I wish I had sooner'',
       lit ''Stop scrolling and {action} '' @ [0x1F525],
       lit ''This mindset shift changed everything'',
       lit ''Bookmark this for when you need it '' @ [0x1F4CC]])]"

definition HASHTAGS :: "(pystr \<times> pystr list) list" where
  "HASHTAGS =
    [(lit ''ecommerce'',
      [lit ''#ecommerce'', lit ''#shopify'', lit ''#onlineshop'', lit ''#smallbusiness'',
       lit ''#entrepreneur'', lit ''#digitalmarketing'', lit ''#onlinestore'',
       lit ''#dropshipping'', lit ''#ecommercebusiness'', lit ''#marketing'']),
     (lit ''saas'',
      [lit ''#saas'', lit ''#startup'', lit ''#tech'', lit ''#software'', lit ''#b2b'',
       lit ''#growthhacking'', lit ''#productivity'', lit ''#automation'',
       lit ''#businesstools'', lit ''#entrepreneurship'']),
     (lit ''fitness'',
      [lit ''#fitness'', lit ''#workout'', lit ''#health'', lit ''#gym'', lit ''#wellness'',
       lit ''#fitnessmotivation'', lit ''#healthylifestyle'', lit ''#training'',
       lit ''#fitnessjourney'', lit ''#strong'']),
     (lit ''food'',
      [lit ''#foodie'', lit ''#foodblogger'', lit ''#recipe'', lit ''#homemade'',
       lit ''#cooking'', lit ''#foodphotography'', lit ''#instafood'', lit ''#healthyfood'',
       lit ''#foodstagram'', lit ''#yummy'']),
     (lit ''fashion'',
      [lit ''#fashion'', lit ''#style'', lit ''#ootd'', lit ''#outfit'',
       lit ''#fashionblogger'', lit ''#streetstyle'', lit ''#instafashion'',
       lit ''#fashionista'', lit ''#styleinspo'', lit ''#lookbook'']),
     (lit ''marketing'',
      [lit ''#marketing'', lit ''#digitalmarketing'', lit ''#socialmedia'', lit ''#branding'',
       lit ''#contentmarketing'', lit ''#marketingtips'', lit ''#growth'',
       lit ''#socialmediamarketing'', lit ''#marketingstrategy'', lit ''#seo'']),
     (lit ''general'',
      [lit ''#instagood'', lit ''#photooftheday'', lit ''#love'', lit ''#instadaily'',
       lit ''#follow'', lit ''#like'', lit ''#picoftheday'', lit ''#beautiful'',
       lit ''#happy'', lit ''#life''])]"

definition CTAS :: "pystr list" where
  "CTAS =
    [lit ''Save this for later '' @ [0x1F4CC],
     lit ''Drop a '' @ [0x1F525] @ lit '' if you agree'',
     lit ''Which one will you try first? '' @ [0x1F447],
     lit ''Share this with someone who needs to see it'',
     lit ''Comment '{keyword}' for the full guide'', lit ''Link in bio for more '' @ [0x1F446],
     lit ''Follow for daily {topic} tips'',
     lit ''Tag someone who's struggling with {problem}'',
     lit ''Double tap if this helped you '' @ [0x2764, 0xFE0F],
     lit ''What's your biggest {topic} challenge? Tell me below '' @ [0x1F447]]"

definition palettes :: "pystr list list" where
  "palettes =
    [[lit ''#FF6B6B'', lit ''#4ECDC4'', lit ''#45B7D1'', lit ''#96CEB4'', lit ''#FFEAA7''],
     [lit ''#6C5CE7'', lit ''#A29BFE'', lit ''#74B9FF'', lit ''#0984E3'', lit ''#00B894''],
     [lit ''#FD79A8'', lit ''#FDCB6E'', lit ''#6C5CE7'', lit ''#00B894'', lit ''#E17055''],
     [lit ''#2D3436'', lit ''#636E72'', lit ''#B2BEC3'', lit ''#DFE6E9'', lit ''#00B894''],
     [lit ''#E74C3C'', lit ''#E67E22'', lit ''#F1C40F'', lit ''#27AE60'', lit ''#2980B9'']]"

definition times :: "(pystr \<times> pystr) list" where
  "times =
    [(lit ''professionals'', lit ''Tuesday/Thursday 12:00 PM or 5:00 PM''),
     (lit ''entrepreneurs'', lit ''Monday/Wednesday 8:00 AM or 6:00 PM''),
     (lit ''students'', lit ''Weekdays 7:00 PM - 9:00 PM''),
     (lit ''parents'', lit ''Weekdays 10:00 AM or 8:00 PM''),
     (lit ''general'', lit ''Tuesday-Thursday 11:00 AM - 1:00 PM'')]"

section \<open>Template substitution\<close>

definition is_digit :: "nat \<Rightarrow> bool" where
  "is_digit c = (48 \<le> c \<and> c \<le> 57)"

text \<open>
  \<open>template.format(**variables)\<close>, read left to right. The second argument is the field name
  read so far while inside braces. \<open>{{\<close> and \<open>}}\<close> are escapes, a single brace out of place
  is a \<open>ValueError\<close>, an empty or numeric field asks for a positional argument and is an
  \<open>IndexError\<close>, a name missing from the dict is a \<open>KeyError\<close>. Conversions, format
  specifications and attribute or index access inside a field are not modelled (the text
  between the braces is the key): no template of the catalog uses them.
\<close>

fun str_format :: "(pystr \<times> pystr) list \<Rightarrow> pystr option \<Rightarrow> pystr \<Rightarrow> error + pystr" where
  "str_format vars None [] = Inr []"
| "str_format vars (Some field) [] =
     Inl (ValueError (lit ''expected '}' before end of string''))"
| "str_format vars (Some field) (c # cs) =
     (if c = 125 then
        (if field = [] \<or> list_all is_digit field
         then Inl (IndexError (lit ''Replacement index out of range for positional args tuple''))
         else (case dict_lookup vars field of
                 None \<Rightarrow> Inl (KeyError (py_repr field))
               | Some v \<Rightarrow>
                   (case str_format vars None cs of
                      Inl e \<Rightarrow> Inl e
                    | Inr r \<Rightarrow> Inr (v @ r))))
      else if c = 123 then Inl (ValueError (lit ''unexpected '{' in field name''))
      else str_format vars (Some (field @ [c])) cs)"
| "str_format vars None [c] =
     (if c = 123 then Inl (ValueError (lit ''Single '{' encountered in format string''))
      else if c = 125 then Inl (ValueError (lit ''Single '}' encountered in format string''))
      else Inr [c])"
| "str_format vars None (c # d # ds) =
     (if c = 123 then
        (if d = 123 then
           (case str_format vars None ds of Inl e \<Rightarrow> Inl e | Inr r \<Rightarrow> Inr (123 # r))
         else str_format vars (Some []) (d # ds))
      else if c = 125 then
        (if d = 125 then
           (case str_format vars None ds of Inl e \<Rightarrow> Inl e | Inr r \<Rightarrow> Inr (125 # r))
         else Inl (ValueError (lit ''Single '}' encountered in format string'')))
      else (case str_format vars None (d # ds) of Inl e \<Rightarrow> Inl e | Inr r \<Rightarrow> Inr (c # r)))"

text \<open>\<open>template.replace('{', '').replace('}', '')\<close>.\<close>

definition strip_braces :: "pystr \<Rightarrow> pystr" where
  "strip_braces template = py_replace (lit ''}'') [] (py_replace (lit ''{'') [] template)"

text \<open>\<open>try: return template.format(**variables) except KeyError: return\<close> the stripped text.\<close>

definition format_or_strip :: "(pystr \<times> pystr) list \<Rightarrow> pystr \<Rightarrow> error + pystr" where
  "format_or_strip variables template =
     (case str_format variables None template of
        Inr r \<Rightarrow> Inr r
      | Inl (KeyError k) \<Rightarrow> Inr (strip_braces template)
      | Inl e \<Rightarrow> Inl e)"

text \<open>
  A template is plain when its braces pair up around non-empty names made of lower-case
  letters and underscores, with no escape and no brace inside a name. The second argument
  is the name read so far, as in \<open>str_format\<close>.
\<close>

definition is_name_char :: "nat \<Rightarrow> bool" where
  "is_name_char c = ((97 \<le> c \<and> c \<le> 122) \<or> c = 95)"

fun plain_template :: "pystr option \<Rightarrow> pystr \<Rightarrow> bool" where
  "plain_template None [] = True"
| "plain_template (Some field) [] = False"
| "plain_template (Some field) (c # cs) =
     (if c = 125 then field \<noteq> [] \<and> list_all is_name_char field \<and> plain_template None cs
      else c \<noteq> 123 \<and> plain_template (Some (field @ [c])) cs)"
| "plain_template None [c] = (c \<noteq> 123 \<and> c \<noteq> 125)"
| "plain_template None (c # d # ds) =
     (if c = 123 then d \<noteq> 123 \<and> plain_template (Some []) (d # ds)
      else c \<noteq> 125 \<and> plain_template None (d # ds))"

section \<open>The generators\<close>

definition hook_variables :: "pystr \<Rightarrow> (pystr \<times> pystr) list" where
  "hook_variables topic =
    [(lit ''benefit'', topic @ lit '' faster''),
     (lit ''product'', topic),
     (lit ''solution'', lit ''the perfect '' @ topic @ lit '' strategy''),
     (lit ''things'', lit ''secrets''),
     (lit ''action'', lit ''starting '' @ topic),
     (lit ''opinion'', topic @ lit '' is overrated''),
     (lit ''problem'', topic @ lit '' struggles''),
     (lit ''topic'', topic),
     (lit ''time'', lit ''10+ hours''),
     (lit ''amount'', lit ''10K''),
     (lit ''project'', topic),
     (lit ''exercise'', topic),
     (lit ''goal'', lit ''better '' @ topic),
     (lit ''number'', lit ''5''),
     (lit ''body_part'', lit ''body''),
     (lit ''dish'', topic),
     (lit ''recipe'', topic),
     (lit ''item'', topic),
     (lit ''season'', lit ''next year''),
     (lit ''experience'', topic),
     (lit ''start'', lit ''zero''),
     (lit ''end'', lit ''hero''),
     (lit ''cost'', lit ''money''),
     (lit ''action'', lit ''doing this''),
     (lit ''options'', lit ''1, 2, or 3?'')]"

definition generate_hook :: "pystr \<Rightarrow> pystr \<Rightarrow> rng \<Rightarrow> error + (pystr \<times> rng)" where
  "generate_hook industry topic g =
     (case dict_lookup HOOKS (lit ''general'') of
        None \<Rightarrow> Inl (KeyError (py_repr (lit ''general'')))
      | Some general_hooks \<Rightarrow>
          (let industry_hooks =
                 (case dict_lookup HOOKS industry of Some hs \<Rightarrow> hs | None \<Rightarrow> general_hooks)
           in (case random_choice industry_hooks g of
                 Inl e \<Rightarrow> Inl e
               | Inr (hook_template, g') \<Rightarrow>
                   (case format_or_strip (hook_variables topic) hook_template of
                      Inl e \<Rightarrow> Inl e
                    | Inr hook \<Rightarrow> Inr (hook, g')))))"

definition fill_template :: "pylib \<Rightarrow> pystr \<Rightarrow> pystr \<Rightarrow> rng \<Rightarrow> error + (pystr \<times> rng)" where
  "fill_template L template topic g =
     (case random_choice [lit ''3'', lit ''5'', lit ''7'', lit ''10''] g of
        Inl e \<Rightarrow> Inl e
      | Inr (number, g') \<Rightarrow>
          (let variables =
                 [(lit ''number'', number),
                  (lit ''topic'', str_title L topic),
                  (lit ''goal'', lit ''Master '' @ topic),
                  (lit ''start'', lit ''Beginner''),
                  (lit ''end'', lit ''Pro''),
                  (lit ''problem'', topic @ lit '' issues''),
                  (lit ''action'', topic),
                  (lit ''cost'', lit ''thousands'')]
           in (case format_or_strip variables template of
                 Inl e \<Rightarrow> Inl e
               | Inr title \<Rightarrow> Inr (title, g'))))"

definition generate_caption ::
  "BrandProfile \<Rightarrow> pystr \<Rightarrow> pystr \<Rightarrow> rng \<Rightarrow> error + (pystr \<times> rng)" where
  "generate_caption brand topic hook g =
     (let intros =
            [lit ''Let's talk about '' @ topic @ lit ''... '' @ [0x1F447],
             lit ''Here's what nobody tells you about '' @ topic @ lit '':'',
             lit ''The '' @ topic @ lit '' game just changed '' @ [0x1F525],
             lit ''Real talk about '' @ topic @ lit '':''];
          value_props =
            [lit ''These '' @ topic @ lit '' strategies have worked for 100+ ''
               @ bp_target_audience brand @ lit ''.'',
             lit ''I spent years figuring out '' @ topic @ lit '' so you don't have to.'',
             lit ''This is the exact '' @ topic @ lit '' system we use.'',
             lit ''Stop overcomplicating '' @ topic @ lit ''. Start here '' @ [0x1F447]]
      in (case random_choice intros g of
            Inl e \<Rightarrow> Inl e
          | Inr (intro, g1) \<Rightarrow>
              (case random_choice value_props g1 of
                 Inl e \<Rightarrow> Inl e
               | Inr (val, g2) \<Rightarrow>
                   (let caption_parts =
                          [hook, [], intro, [], val, [],
                           lit ''Save this post and come back to it when you need it ''
                             @ [0x1F4CC],
                           [],
                           lit ''Follow @'' @ bp_name brand @ lit '' for daily '' @ topic
                             @ lit '' tips!'']
                    in Inr (str_join [10] caption_parts, g2)))))"

text \<open>
  The list \<open>selected\<close> of the hashtag generator, before duplicates are removed. The bank is
  \<open>self.HASHTAGS\<close>; the default of \<open>get\<close> is evaluated first, so a bank without the
  \<open>general\<close> key is a \<open>KeyError\<close>.
\<close>

definition select_hashtags ::
  "(pystr \<times> pystr list) list \<Rightarrow> pylib \<Rightarrow> pystr \<Rightarrow> pystr \<Rightarrow> rng
   \<Rightarrow> error + (pystr list \<times> rng)" where
  "select_hashtags bank L industry topic g =
     (case dict_lookup bank (lit ''general'') of
        None \<Rightarrow> Inl (KeyError (py_repr (lit ''general'')))
      | Some general_tags \<Rightarrow>
          (let industry_tags =
                 (case dict_lookup bank industry of Some ts \<Rightarrow> ts | None \<Rightarrow> general_tags);
               topic_tags =
                 [lit ''#'' @ py_replace (lit '' '') [] (str_lower L topic),
                  lit ''#'' @ py_replace (lit '' '') [] (str_lower L topic) @ lit ''tips'',
                  lit ''#'' @ py_replace (lit '' '') [] (str_lower L topic) @ lit ''strategy'']
           in (case random_sample (slice_to industry_tags 5) (min 3 (length industry_tags)) g of
                 Inl e \<Rightarrow> Inl e
               | Inr (selected, g1) \<Rightarrow>
                   (let selected = selected @ topic_tags
                    in (case random_sample (slice_to general_tags 5) 2 g1 of
                          Inl e \<Rightarrow> Inl e
                        | Inr (extra, g2) \<Rightarrow> Inr (selected @ extra, g2))))))"

definition generate_hashtags_with ::
  "(pystr \<times> pystr list) list \<Rightarrow> pylib \<Rightarrow> pystr \<Rightarrow> pystr \<Rightarrow> rng
   \<Rightarrow> error + (pystr list \<times> rng)" where
  "generate_hashtags_with bank L industry topic g =
     (case select_hashtags bank L industry topic g of
        Inl e \<Rightarrow> Inl e
      | Inr (selected, g') \<Rightarrow> Inr (list_of_set selected g'))"

definition generate_hashtags ::
  "pylib \<Rightarrow> pystr \<Rightarrow> pystr \<Rightarrow> rng \<Rightarrow> error + (pystr list \<times> rng)" where
  "generate_hashtags L industry topic g = generate_hashtags_with HASHTAGS L industry topic g"

definition select_cta :: "pylib \<Rightarrow> pystr \<Rightarrow> rng \<Rightarrow> error + (pystr \<times> rng)" where
  "select_cta L topic g =
     (case random_choice CTAS g of
        Inl e \<Rightarrow> Inl e
      | Inr (cta, g') \<Rightarrow>
          Inr (py_replace (lit ''{problem}'') (topic @ lit '' struggles'')
                 (py_replace (lit ''{keyword}'') (str_upper L (slice_to topic 5))
                    (py_replace (lit ''{topic}'') topic cta)), g'))"

definition optimal_posting_time :: "pystr \<Rightarrow> error + pystr" where
  "optimal_posting_time target_audience =
     (case dict_lookup times (lit ''general'') of
        None \<Rightarrow> Inl (KeyError (py_repr (lit ''general'')))
      | Some dflt \<Rightarrow>
          (case dict_lookup times target_audience of
             Some t \<Rightarrow> Inr t
           | None \<Rightarrow> Inr dflt))"

section \<open>The forge and its operations\<close>

text \<open>
  The state of a \<open>ContentForge\<close> object: the brand mapping and the content history. Every
  public method takes the state and returns the state it leaves behind, next to its result
  or the exception it raised.
\<close>

record forge =
  brands :: "pystr \<rightharpoonup> BrandProfile"
  content_history :: "ContentPiece list"

definition init_forge :: forge where
  "init_forge = \<lparr>brands = Map.empty, content_history = []\<rparr>"

definition generate_colors :: "rng \<Rightarrow> error + (pystr list \<times> rng)" where
  "generate_colors g = random_choice palettes g"

definition create_brand ::
  "pystr \<Rightarrow> pystr \<Rightarrow> pystr \<Rightarrow> pystr \<Rightarrow> pystr list \<Rightarrow> int \<Rightarrow> forge \<Rightarrow> rng
   \<Rightarrow> (error + (BrandProfile \<times> rng)) \<times> forge" where
  "create_brand brand_name industry voice target_audience content_pillars posting_frequency
      self g =
     (case generate_colors g of
        Inl e \<Rightarrow> (Inl e, self)
      | Inr (colors, g') \<Rightarrow>
          (let brand = \<lparr>bp_name = brand_name, bp_industry = industry, bp_voice = voice,
                        bp_target_audience = target_audience, bp_color_scheme = colors,
                        bp_content_pillars = content_pillars,
                        bp_posting_frequency = posting_frequency\<rparr>
           in (Inr (brand, g'), self\<lparr>brands := (brands self)(brand_name \<mapsto> brand)\<rparr>)))"

text \<open>The body of \<open>generate_carousel\<close> once the brand is found; it reads no state.\<close>

definition carousel_for ::
  "pylib \<Rightarrow> BrandProfile \<Rightarrow> pystr \<Rightarrow> pystr \<Rightarrow> int \<Rightarrow> rng \<Rightarrow> error + (ContentPiece \<times> rng)" where
  "carousel_for L brand topic template_type num_slides g =
     (case get_template template_type of
        Inl e \<Rightarrow> Inl e
      | Inr template \<Rightarrow>
     (case generate_hook (bp_industry brand) topic g of
        Inl e \<Rightarrow> Inl e
      | Inr (hook, g1) \<Rightarrow>
     (let slides = generate_slides template topic num_slides (bp_voice brand) in
     (case generate_caption brand topic hook g1 of
        Inl e \<Rightarrow> Inl e
      | Inr (caption, g2) \<Rightarrow>
     (case generate_hashtags L (bp_industry brand) topic g2 of
        Inl e \<Rightarrow> Inl e
      | Inr (hashtags, g3) \<Rightarrow>
     (case select_cta L topic g3 of
        Inl e \<Rightarrow> Inl e
      | Inr (cta, g4) \<Rightarrow>
     (let engagement_score = calculate_engagement_score hook slides hashtags in
     (case optimal_posting_time (bp_target_audience brand) of
        Inl e \<Rightarrow> Inl e
      | Inr best_time \<Rightarrow>
     (case random_choice (tpl_titles template) g4 of
        Inl e \<Rightarrow> Inl e
      | Inr (title_template, g5) \<Rightarrow>
     (case fill_template L title_template topic g5 of
        Inl e \<Rightarrow> Inl e
      | Inr (title, g6) \<Rightarrow>
          Inr (\<lparr>cp_content_type = lit ''carousel'', cp_title = title, cp_slides = slides,
                cp_caption = caption, cp_hashtags = hashtags, cp_hook = hook, cp_cta = cta,
                cp_engagement_score = engagement_score, cp_best_posting_time = best_time,
                cp_brand_voice = bp_voice brand\<rparr>, g6)))))))))))"

definition generate_carousel ::
  "pylib \<Rightarrow> pystr \<Rightarrow> pystr \<Rightarrow> pystr \<Rightarrow> int \<Rightarrow> forge \<Rightarrow> rng
   \<Rightarrow> (error + (ContentPiece \<times> rng)) \<times> forge" where
  "generate_carousel L brand_name topic template_type num_slides self g =
     (case brands self brand_name of
        None \<Rightarrow>
          (Inl (ValueError (lit ''Brand '' @ [39] @ brand_name @ [39] @ lit '' not found. Create it first.'')),
           self)
      | Some brand \<Rightarrow> (carousel_for L brand topic template_type num_slides g, self))"

definition single_post_for ::
  "pylib \<Rightarrow> BrandProfile \<Rightarrow> pystr \<Rightarrow> pystr \<Rightarrow> rng \<Rightarrow> error + (ContentPiece \<times> rng)" where
  "single_post_for L brand topic post_type g =
     (case generate_hook (bp_industry brand) topic g of
        Inl e \<Rightarrow> Inl e
      | Inr (hook, g1) \<Rightarrow>
     (let captions =
            [(lit ''educational'',
              lit ''Quick '' @ topic @ lit '' tip:'' @ [10, 10, 0x1F4A1]
                @ lit '' [Insert educational content here]'' @ [10, 10]
                @ lit ''Save this for later! '' @ [0x1F4CC]),
             (lit ''motivational'',
              lit ''Your daily reminder:'' @ [10, 10, 0x1F525]
                @ lit '' [Insert motivational message about '' @ topic @ lit '']'' @ [10, 10]
                @ lit ''Tag someone who needs to hear this '' @ [0x1F447]),
             (lit ''promotional'',
              lit ''Introducing [Product/Service]'' @ [10, 10, 0x2728] @ lit '' The '' @ topic
                @ lit '' solution you've been waiting for'' @ [10, 10]
                @ lit ''Link in bio to learn more '' @ [0x1F446]),
             (lit ''engagement'',
              lit ''Question for you:'' @ [10, 10, 0x2753]
                @ lit '' [Insert engaging question about '' @ topic @ lit '']'' @ [10, 10]
                @ lit ''Drop your answer below! '' @ [0x1F447])] in
     (case dict_lookup captions (lit ''educational'') of
        None \<Rightarrow> Inl (KeyError (py_repr (lit ''educational'')))
      | Some dflt \<Rightarrow>
     (let caption = (case dict_lookup captions post_type of Some c \<Rightarrow> c | None \<Rightarrow> dflt) in
     (case generate_hashtags L (bp_industry brand) topic g1 of
        Inl e \<Rightarrow> Inl e
      | Inr (hashtags, g2) \<Rightarrow>
     (case select_cta L topic g2 of
        Inl e \<Rightarrow> Inl e
      | Inr (cta, g3) \<Rightarrow>
     (case draw g3 of (r, g4) \<Rightarrow>
     (case optimal_posting_time (bp_target_audience brand) of
        Inl e \<Rightarrow> Inl e
      | Inr best_time \<Rightarrow>
          Inr (\<lparr>cp_content_type = lit ''single'',
                cp_title = str_title L topic @ lit '' '' @ str_title L post_type,
                cp_slides = [mk_slide (lit ''single'') None None None (Some post_type)],
                cp_caption = caption, cp_hashtags = hashtags, cp_hook = hook, cp_cta = cta,
                cp_engagement_score = 60 + int (r mod 31), cp_best_posting_time = best_time,
                cp_brand_voice = bp_voice brand\<rparr>, g4)))))))))"

definition generate_single_post ::
  "pylib \<Rightarrow> pystr \<Rightarrow> pystr \<Rightarrow> pystr \<Rightarrow> forge \<Rightarrow> rng
   \<Rightarrow> (error + (ContentPiece \<times> rng)) \<times> forge" where
  "generate_single_post L brand_name topic post_type self g =
     (case brands self brand_name of
        None \<Rightarrow> (Inl (ValueError (lit ''Brand '' @ [39] @ brand_name @ [39] @ lit '' not found'')), self)
      | Some brand \<Rightarrow> (single_post_for L brand topic post_type g, self))"

text \<open>One record of the content calendar; \<open>ce_date\<close> and \<open>ce_day\<close> are the formatted date.\<close>

record calendar_entry =
  ce_date :: pystr
  ce_day :: pystr
  ce_content_type :: pystr
  ce_title :: pystr
  ce_topic :: pystr
  ce_engagement_score :: int
  ce_best_time :: pystr
  ce_caption_preview :: pystr
  ce_hashtags :: "pystr list"

text \<open>
  Dates are day numbers (\<open>date.toordinal()\<close>): day 1 is 0001-01-01 and the last day a
  \<open>datetime\<close> can hold is 9999-12-31. \<open>timedelta(days=i)\<close> refuses more than 999999999 days,
  and adding it to a \<open>datetime\<close> raises when the result leaves the range.
\<close>

definition max_ordinal :: int where
  "max_ordinal = 3652059"

definition add_days :: "int \<Rightarrow> nat \<Rightarrow> error + int" where
  "add_days start_date i =
     (if 999999999 < i
      then Inl (OverflowError (lit ''days='' @ str_of_nat i
                               @ lit ''; must have magnitude <= 999999999''))
      else if start_date + int i < 1 \<or> max_ordinal < start_date + int i
      then Inl (OverflowError (lit ''date value out of range''))
      else Inr (start_date + int i))"

text \<open>
  The loop of \<open>generate_content_calendar\<close> over the days still to do. \<open>start_date\<close> is the
  day number of \<open>datetime.now()\<close>; \<open>brand\<close> is the profile fetched before the loop.
\<close>

fun calendar_loop ::
  "pylib \<Rightarrow> pystr \<Rightarrow> BrandProfile \<Rightarrow> int \<Rightarrow> nat list \<Rightarrow> calendar_entry list \<Rightarrow> forge \<Rightarrow> rng
   \<Rightarrow> (error + (calendar_entry list \<times> rng)) \<times> forge" where
  "calendar_loop L brand_name brand start_date [] calendar self g = (Inr (calendar, g), self)"
| "calendar_loop L brand_name brand start_date (i # days) calendar self g =
     (case add_days start_date i of
        Inl e \<Rightarrow> (Inl e, self)
      | Inr date \<Rightarrow>
      if bp_content_pillars brand = []
      then (Inl (ZeroDivisionError (lit ''integer modulo by zero'')), self)
      else
        (let pillar = bp_content_pillars brand ! (i mod length (bp_content_pillars brand)) in
         (case random_choice [lit ''tips'', lit ''mistakes'', lit ''steps''] g of
            Inl e \<Rightarrow> (Inl e, self)
          | Inr (template_type, g1) \<Rightarrow>
              (case generate_carousel L brand_name pillar template_type 7 self g1 of
                 (Inl e, self') \<Rightarrow> (Inl e, self')
               | (Inr (content, g2), self') \<Rightarrow>
                   calendar_loop L brand_name brand start_date days
                     (calendar @
                      [\<lparr>ce_date = strftime_date L date, ce_day = strftime_day L date,
                        ce_content_type = cp_content_type content, ce_title = cp_title content,
                        ce_topic = pillar, ce_engagement_score = cp_engagement_score content,
                        ce_best_time = cp_best_posting_time content,
                        ce_caption_preview = slice_to (cp_caption content) 100 @ lit ''...'',
                        ce_hashtags = cp_hashtags content\<rparr>])
                     self' g2))))"

definition generate_content_calendar ::
  "pylib \<Rightarrow> int \<Rightarrow> pystr \<Rightarrow> int \<Rightarrow> forge \<Rightarrow> rng
   \<Rightarrow> (error + (calendar_entry list \<times> rng)) \<times> forge" where
  "generate_content_calendar L start_date brand_name days self g =
     (case brands self brand_name of
        None \<Rightarrow> (Inl (ValueError (lit ''Brand '' @ [39] @ brand_name @ [39] @ lit '' not found'')), self)
      | Some brand \<Rightarrow>
          calendar_loop L brand_name brand start_date
            [0 ..< nat (min days (int (length (bp_content_pillars brand)) * 2))] [] self g)"

text \<open>
  A call of a method of the forge, and the state it leaves. A process is a sequence of
  calls, each with the random draws it sees, from the state \<open>__init__\<close> sets up.
\<close>

datatype call =
    Create_brand pystr pystr pystr pystr "pystr list" int
  | Generate_carousel pystr pystr pystr int
  | Generate_single_post pystr pystr pystr
  | Generate_content_calendar int pystr int
  | Generate_hook pystr pystr
  | Generate_caption BrandProfile pystr pystr
  | Generate_hashtags pystr pystr

fun is_create_brand :: "call \<Rightarrow> bool" where
  "is_create_brand (Create_brand n i v t p f) = True"
| "is_create_brand c = False"

fun state_after :: "pylib \<Rightarrow> call \<Rightarrow> forge \<Rightarrow> rng \<Rightarrow> forge" where
  "state_after L (Create_brand n i v t p f) self g = snd (create_brand n i v t p f self g)"
| "state_after L (Generate_carousel b t ty n) self g = snd (generate_carousel L b t ty n self g)"
| "state_after L (Generate_single_post b t p) self g = snd (generate_single_post L b t p self g)"
| "state_after L (Generate_content_calendar s b d) self g =
     snd (generate_content_calendar L s b d self g)"
| "state_after L (Generate_hook i t) self g = snd (generate_hook i t g, self)"
| "state_after L (Generate_caption b t h) self g = snd (generate_caption b t h g, self)"
| "state_after L (Generate_hashtags i t) self g = snd (generate_hashtags L i t g, self)"

fun run :: "pylib \<Rightarrow> (call \<times> rng) list \<Rightarrow> forge \<Rightarrow> forge" where
  "run L [] self = self"
| "run L ((c, g) # cs) self = run L cs (state_after L c self g)"

section \<open>The web handlers\<close>

datatype json =
    JNull
  | JBool bool
  | JInt int
  | JFloat rat
  | JStr pystr
  | JList "json list"
  | JObj "(pystr \<times> json) list"

record response =
  resp_status :: nat
  resp_body :: json

text \<open>
  \<open>request.get_json()\<close>: the request carries a parsed JSON body or none (no body, not JSON,
  or not parseable). Without one Flask raises an HTTP exception here (older versions return
  \<open>None\<close>, and the \<open>data.get\<close> that follows raises); inside the handler's \<open>try\<close> either is
  an exception.
\<close>

definition get_json :: "json option \<Rightarrow> error + json" where
  "get_json request =
     (case request of
        None \<Rightarrow> Inl (HTTPException (lit ''415 Unsupported Media Type: Did not attempt to load JSON data because the request Content-Type was not 'application/json'.''))
      | Some data \<Rightarrow> Inr data)"

fun type_name :: "json \<Rightarrow> pystr" where
  "type_name JNull = lit ''NoneType''"
| "type_name (JBool b) = lit ''bool''"
| "type_name (JInt n) = lit ''int''"
| "type_name (JFloat q) = lit ''float''"
| "type_name (JStr s) = lit ''str''"
| "type_name (JList xs) = lit ''list''"
| "type_name (JObj entries) = lit ''dict''"

text \<open>\<open>data.get(key, default)\<close>: only a dict has \<open>get\<close>.\<close>

definition data_get :: "json \<Rightarrow> pystr \<Rightarrow> json \<Rightarrow> error + json" where
  "data_get data key dflt =
     (case data of
        JObj entries \<Rightarrow> Inr (case dict_lookup entries key of Some v \<Rightarrow> v | None \<Rightarrow> dflt)
      | _ \<Rightarrow> Inl (AttributeError ([39] @ type_name data @ [39]
                                  @ lit '' object has no attribute 'get'' @ [39])))"

text \<open>
  \<open>int(s)\<close> on a string: surrounding whitespace is dropped, a sign may lead, and the rest is
  decimal digits with single underscores between them. (Digits are the ASCII ones here.)
\<close>

definition is_space :: "nat \<Rightarrow> bool" where
  "is_space c = (c \<in> {9, 10, 11, 12, 13, 28, 29, 30, 31, 32, 0x85, 0xA0, 0x1680, 0x2000, 0x2001,
                      0x2002, 0x2003, 0x2004, 0x2005, 0x2006, 0x2007, 0x2008, 0x2009, 0x200A,
                      0x2028, 0x2029, 0x202F, 0x205F, 0x3000})"

definition str_strip :: "pystr \<Rightarrow> pystr" where
  "str_strip x = rev (dropWhile is_space (rev (dropWhile is_space x)))"

fun digits_value :: "int \<Rightarrow> pystr \<Rightarrow> int option" where
  "digits_value acc [] = None"
| "digits_value acc [c] = (if is_digit c then Some (acc * 10 + int (c - 48)) else None)"
| "digits_value acc (c # d # ds) =
     (if is_digit c then
        (if d = 95 then digits_value (acc * 10 + int (c - 48)) ds
         else digits_value (acc * 10 + int (c - 48)) (d # ds))
      else None)"

definition int_of_str :: "pystr \<Rightarrow> error + int" where
  "int_of_str x =
     (let bad = Inl (ValueError (lit ''invalid literal for int() with base 10: '' @ py_repr x))
      in (case str_strip x of
            [] \<Rightarrow> bad
          | c # cs \<Rightarrow>
              (if c = 45 then (case digits_value 0 cs of None \<Rightarrow> bad | Some n \<Rightarrow> Inr (- n))
               else if c = 43 then (case digits_value 0 cs of None \<Rightarrow> bad | Some n \<Rightarrow> Inr n)
               else (case digits_value 0 (c # cs) of None \<Rightarrow> bad | Some n \<Rightarrow> Inr n))))"

text \<open>
  \<open>int(v)\<close> on a value of the request. A float is given by its exact rational value and
  is truncated towards zero.
\<close>

fun py_int :: "json \<Rightarrow> error + int" where
  "py_int (JInt n) = Inr n"
| "py_int (JBool b) = Inr (if b then 1 else 0)"
| "py_int (JFloat q) = Inr (if 0 \<le> q then \<lfloor>q\<rfloor> else \<lceil>q\<rceil>)"
| "py_int (JStr x) = int_of_str x"
| "py_int v =
     Inl (TypeError (lit ''int() argument must be a string, a bytes-like object or a real number, not ''
                     @ [39] @ type_name v @ [39]))"

text \<open>
  The attributes of a \<open>ContentForge\<close> object: the class constants, the methods and the two
  fields set by \<open>__init__\<close>. Looking up any other name raises.
\<close>

definition ContentForge_attributes :: "string list" where
  "ContentForge_attributes =
    [''HOOKS'', ''CAROUSEL_TEMPLATES'', ''CTAS'', ''HASHTAGS'', ''__init__'', ''create_brand'',
     ''_generate_colors'', ''generate_carousel'', ''_generate_hook'', ''_fill_template'',
     ''_generate_slides'', ''_generate_caption'', ''_generate_hashtags'', ''_select_cta'',
     ''_calculate_engagement_score'', ''_optimal_posting_time'', ''generate_content_calendar'',
     ''generate_single_post'', ''export_content'', ''analyze_performance'', ''brands'',
     ''content_history'']"

definition forge_getattr :: "string \<Rightarrow> error + string" where
  "forge_getattr attr =
     (if attr \<in> set ContentForge_attributes then Inr attr
      else Inl (AttributeError ([39] @ lit ''ContentForge' object has no attribute '' @ [39]
                                @ lit attr @ [39])))"

definition failure :: "error \<Rightarrow> response" where
  "failure e =
     \<lparr>resp_status = 500,
      resp_body = JObj [(lit ''success'', JBool False), (lit ''error'', JStr (str_of_error e))]\<rparr>"

fun json_of_slide :: "slide \<Rightarrow> json" where
  "json_of_slide s =
     JObj ([(lit ''type'', JStr (sl_type s))]
           @ (case sl_number s of Some n \<Rightarrow> [(lit ''number'', JInt n)] | None \<Rightarrow> [])
           @ (case sl_title s of Some t \<Rightarrow> [(lit ''title'', JStr t)] | None \<Rightarrow> [])
           @ (case sl_text s of Some t \<Rightarrow> [(lit ''text'', JStr t)] | None \<Rightarrow> [])
           @ (case sl_style s of Some t \<Rightarrow> [(lit ''style'', JStr t)] | None \<Rightarrow> []))"

definition carousel_result :: "ContentPiece \<Rightarrow> json" where
  "carousel_result content =
     JObj [(lit ''content_type'', JStr (cp_content_type content)),
           (lit ''title'', JStr (cp_title content)),
           (lit ''slides'', JList (map json_of_slide (cp_slides content))),
           (lit ''caption'', JStr (cp_caption content)),
           (lit ''hashtags'', JList (map JStr (cp_hashtags content))),
           (lit ''hook'', JStr (cp_hook content)),
           (lit ''cta'', JStr (cp_cta content)),
           (lit ''engagement_score'', JInt (cp_engagement_score content)),
           (lit ''best_posting_time'', JStr (cp_best_posting_time content)),
           (lit ''brand_voice'', JStr (cp_brand_voice content))]"

text \<open>
  The handler of \<open>POST /generate/carousel\<close> (the same in \<open>backend/app.py\<close> and \<open>server.py\<close>).
  What calling a resolved attribute with the keyword arguments does is the parameter
  \<open>invoke\<close>: the theorems on the handler hold for every behaviour of that call.
\<close>

definition generate_carousel_route ::
  "(string \<Rightarrow> (string \<times> json) list \<Rightarrow> forge \<Rightarrow> rng \<Rightarrow> (error + ContentPiece) \<times> forge)
   \<Rightarrow> json option \<Rightarrow> forge \<Rightarrow> rng \<Rightarrow> response \<times> forge" where
  "generate_carousel_route invoke request self g =
     (case get_json request of
        Inl e \<Rightarrow> (failure e, self)
      | Inr data \<Rightarrow>
     (case data_get data (lit ''topic'') (JStr (lit ''Marketing Tips'')) of
        Inl e \<Rightarrow> (failure e, self)
      | Inr topic \<Rightarrow>
     (case data_get data (lit ''industry'') (JStr (lit ''ecommerce'')) of
        Inl e \<Rightarrow> (failure e, self)
      | Inr industry \<Rightarrow>
     (case data_get data (lit ''brand_voice'') (JStr (lit ''friendly'')) of
        Inl e \<Rightarrow> (failure e, self)
      | Inr brand_voice \<Rightarrow>
     (case data_get data (lit ''num_slides'') (JInt 7) of
        Inl e \<Rightarrow> (failure e, self)
      | Inr n \<Rightarrow>
     (case py_int n of
        Inl e \<Rightarrow> (failure e, self)
      | Inr num_slides \<Rightarrow>
     (case data_get data (lit ''template'') (JStr (lit ''tips'')) of
        Inl e \<Rightarrow> (failure e, self)
      | Inr template \<Rightarrow>
     (case forge_getattr ''generate_carousel_post'' of
        Inl e \<Rightarrow> (failure e, self)
      | Inr method \<Rightarrow>
     (case invoke method
             [(''topic'', topic), (''industry'', industry), (''num_slides'', JInt num_slides),
              (''brand_voice'', brand_voice), (''template_type'', template)] self g of
        (Inl e, self') \<Rightarrow> (failure e, self')
      | (Inr content, self') \<Rightarrow>
          (\<lparr>resp_status = 200,
            resp_body = JObj [(lit ''success'', JBool True),
                              (lit ''content'', carousel_result content)]\<rparr>, self'))))))))))"

text \<open>
  The handler of \<open>POST /generate/caption\<close>. \<open>invoke\<close> is the call of a resolved attribute with
  positional arguments; it returns the value and the draws left.
\<close>

definition generate_caption_route ::
  "(string \<Rightarrow> json list \<Rightarrow> forge \<Rightarrow> rng \<Rightarrow> (error + (json \<times> rng)) \<times> forge)
   \<Rightarrow> json option \<Rightarrow> forge \<Rightarrow> rng \<Rightarrow> response \<times> forge" where
  "generate_caption_route invoke request self g =
     (case get_json request of
        Inl e \<Rightarrow> (failure e, self)
      | Inr data \<Rightarrow>
     (case data_get data (lit ''topic'') (JStr []) of
        Inl e \<Rightarrow> (failure e, self)
      | Inr topic \<Rightarrow>
     (case data_get data (lit ''industry'') (JStr (lit ''ecommerce'')) of
        Inl e \<Rightarrow> (failure e, self)
      | Inr industry \<Rightarrow>
     (case forge_getattr ''generate_caption'' of
        Inl e \<Rightarrow> (failure e, self)
      | Inr method \<Rightarrow>
     (case invoke method [topic, industry] self g of
        (Inl e, self1) \<Rightarrow> (failure e, self1)
      | (Inr (caption, g1), self1) \<Rightarrow>
     (case forge_getattr ''generate_hashtags'' of
        Inl e \<Rightarrow> (failure e, self1)
      | Inr method2 \<Rightarrow>
     (case invoke method2 [topic, industry] self1 g1 of
        (Inl e, self2) \<Rightarrow> (failure e, self2)
      | (Inr (hashtags, g2), self2) \<Rightarrow>
          (\<lparr>resp_status = 200,
            resp_body = JObj [(lit ''success'', JBool True), (lit ''caption'', caption),
                              (lit ''hashtags'', hashtags)]\<rparr>, self2))))))))"

text \<open>Concrete library functions (ASCII only) and a concrete brand, for evaluation.\<close>

definition ascii_lower :: "pystr \<Rightarrow> pystr" where
  "ascii_lower x = map (\<lambda>c. if 65 \<le> c \<and> c \<le> 90 then c + 32 else c) x"

definition ascii_upper :: "pystr \<Rightarrow> pystr" where
  "ascii_upper x = map (\<lambda>c. if 97 \<le> c \<and> c \<le> 122 then c - 32 else c) x"

definition ascii_lib :: pylib where
  "ascii_lib = \<lparr>str_lower = ascii_lower, str_upper = ascii_upper, str_title = (\<lambda>x. x),
                strftime_date = (\<lambda>d. lit ''day''), strftime_day = (\<lambda>d. lit ''Monday'')\<rparr>"

definition brand_x :: BrandProfile where
  "brand_x = \<lparr>bp_name = lit ''BrandX'', bp_industry = lit ''fitness'', bp_voice = lit ''friendly'',
              bp_target_audience = lit ''students'', bp_color_scheme = [],
              bp_content_pillars = [lit ''core workouts'', lit ''nutrition'', lit ''recovery''],
              bp_posting_frequency = 5\<rparr>"

section \<open>Properties\<close>

lemma str_contains_single: "str_contains [c] x \<longleftrightarrow> c \<in> set x"
  by (induction x) (auto simp: startswith_def)

lemma emphasis_any:
  "list_ex (\<lambda>char. str_contains char hook) emphasis_chars \<longleftrightarrow> set hook \<inter> emphasis_set \<noteq> {}"
  by (auto simp: emphasis_chars_def emphasis_set_def str_contains_single)

text \<open>
  C3. For every hook, slide list and hashtag list the engagement score of the code is the
  score the specification describes (50, plus 10 for an emphasis character in the hook,
  plus 5 for a hook under 60 characters, plus 15 for 5 to 10 slides, plus 10 for 8 to 15
  hashtags, clamped to 0..100), and it lies between 0 and 100; empty inputs included.
\<close>

theorem engagement_score_is_spec:
  "calculate_engagement_score hook slides hashtags = engagement_score_spec hook slides hashtags
   \<and> 0 \<le> calculate_engagement_score hook slides hashtags
   \<and> calculate_engagement_score hook slides hashtags \<le> 100"
  unfolding calculate_engagement_score_def engagement_score_spec_def Let_def emphasis_any
  by simp

lemma append_slides_length:
  "length (append_slides content slots slides) \<le> length slides + length slots"
proof (induction slots arbitrary: slides)
  case Nil
  show ?case by simp
next
  case (Cons slot rest)
  show ?case
  proof (cases "dict_lookup content slot")
    case None
    with Cons [of slides] show ?thesis by simp
  next
    case (Some s)
    with Cons [of "slides @ [s]"] show ?thesis by simp
  qed
qed

lemma slice_to_length:
  "0 \<le> n \<Longrightarrow> int (length (slice_to xs n)) \<le> min n (int (length xs))"
  by (simp add: slice_to_def)

text \<open>
  C5 (as amended). For every template and every requested slide count \<open>N \<ge> 0\<close> the slide
  generator returns at most \<open>min(N, len(structure))\<close> slides.
\<close>

theorem generate_slides_bound:
  assumes "0 \<le> N"
  shows "int (length (generate_slides template topic N voice))
         \<le> min N (int (length (tpl_structure template)))"
proof -
  have "length (generate_slides template topic N voice)
        \<le> length (slice_to (tpl_structure template) N)"
    using append_slides_length [of "slide_content topic" "slice_to (tpl_structure template) N" "[]"]
    by (simp add: generate_slides_def)
  with slice_to_length [OF assms, of "tpl_structure template"] show ?thesis
    by linarith
qed

theorem generate_slides_bound_witness:
  "(0::int) \<le> 5
   \<and> int (length (generate_slides (the (dict_lookup CAROUSEL_TEMPLATES (lit ''steps'')))
                   (lit ''core workouts'') 5 (lit ''friendly'')))
      \<le> min 5 (int (length (tpl_structure (the (dict_lookup CAROUSEL_TEMPLATES (lit ''steps''))))))"
  using generate_slides_bound [of 5 "the (dict_lookup CAROUSEL_TEMPLATES (lit ''steps''))"
      "lit ''core workouts''" "lit ''friendly''"]
  by simp

text \<open>
  C5 as stated fails for a negative count: \<open>structure[:-1]\<close> drops the last slot only, so
  the \<open>tips\<close> template with \<open>num_slides = -1\<close> yields 6 slides.
\<close>

theorem generate_slides_negative_count:
  "length (generate_slides (the (dict_lookup CAROUSEL_TEMPLATES (lit ''tips'')))
             (lit ''x'') (- 1) (lit ''friendly'')) = 6
   \<and> length (tpl_structure (the (dict_lookup CAROUSEL_TEMPLATES (lit ''tips'')))) = 7
   \<and> \<not> int (length (generate_slides (the (dict_lookup CAROUSEL_TEMPLATES (lit ''tips'')))
                      (lit ''x'') (- 1) (lit ''friendly'')))
        \<le> min (- 1) (int (length (tpl_structure
                                    (the (dict_lookup CAROUSEL_TEMPLATES (lit ''tips''))))))"
  by (simp add: generate_slides_def slice_to_def CAROUSEL_TEMPLATES_def dict_lookup_def
      slide_content_def lit_def mk_slide_def)


lemma sample_pool_length: "length (fst (sample_pool pool k g)) = k"
proof (induction k arbitrary: pool g)
  case 0
  show ?case by simp
next
  case (Suc k)
  obtain r g1 where d: "draw g = (r, g1)" by (cases "draw g")
  obtain rest g2
    where sp: "sample_pool (butlast (pool[r mod length pool := last pool])) k g1 = (rest, g2)"
    by (cases "sample_pool (butlast (pool[r mod length pool := last pool])) k g1")
  from Suc.IH [of "butlast (pool[r mod length pool := last pool])" g1] sp
  have "length rest = k" by simp
  then show ?case using d sp by (simp add: Let_def)
qed

lemma sample_pool_subset:
  "k \<le> length pool \<Longrightarrow> set (fst (sample_pool pool k g)) \<subseteq> set pool"
proof (induction k arbitrary: pool g)
  case 0
  show ?case by simp
next
  case (Suc k)
  obtain r g1 where d: "draw g = (r, g1)" by (cases "draw g")
  define j where "j = r mod length pool"
  define pool' where "pool' = butlast (pool[j := last pool])"
  from Suc.prems have ne: "pool \<noteq> []" by auto
  then have j: "j < length pool" by (simp add: j_def)
  have "set (pool[j := last pool]) \<subseteq> insert (last pool) (set pool)"
    by (rule set_update_subset_insert)
  moreover have "last pool \<in> set pool" using ne by simp
  moreover have "set pool' \<subseteq> set (pool[j := last pool])"
    unfolding pool'_def by (auto dest: in_set_butlastD)
  ultimately have sub: "set pool' \<subseteq> set pool" by blast
  have len: "k \<le> length pool'" using Suc.prems by (simp add: pool'_def)
  obtain rest g2 where sp: "sample_pool pool' k g1 = (rest, g2)" by (cases "sample_pool pool' k g1")
  from Suc.IH [OF len, of g1] sp have "set rest \<subseteq> set pool'" by simp
  moreover have "fst (sample_pool pool (Suc k) g) = pool ! j # rest"
    using d sp by (simp add: Let_def j_def pool'_def)
  ultimately show ?case using sub j by auto
qed

lemma list_of_set_length: "length (fst (list_of_set xs g)) \<le> length xs"
  by (simp add: list_of_set_def sample_pool_length)

lemma list_of_set_subset: "set (fst (list_of_set xs g)) \<subseteq> set xs"
  using sample_pool_subset [of "length (remdups xs)" "remdups xs" g]
  by (simp add: list_of_set_def)

lemma dict_lookup_in: "dict_lookup d k = Some v \<Longrightarrow> (k, v) \<in> set d"
  by (auto simp: dict_lookup_def dest: map_of_SomeD)

lemma select_hashtags_ok:
  assumes gen: "dict_lookup bank (lit ''general'') = Some gen"
    and two: "2 \<le> length gen"
    and tags: "tags = (case dict_lookup bank industry of Some ts \<Rightarrow> ts | None \<Rightarrow> gen)"
  shows "\<exists>selected g'. select_hashtags bank L industry topic g = Inr (selected, g')
           \<and> length selected = min 3 (length tags) + 5
           \<and> (\<forall>t \<in> set selected. t \<in> set tags \<or> t \<in> set gen \<or> startswith t (lit ''#''))"
proof -
  obtain s1 g1 where s1: "sample_pool (take 5 tags) (min 3 (length tags)) g = (s1, g1)"
    by (cases "sample_pool (take 5 tags) (min 3 (length tags)) g")
  obtain s2 g2 where s2: "sample_pool (take 5 gen) 2 g1 = (s2, g2)"
    by (cases "sample_pool (take 5 gen) 2 g1")
  have k1: "min 3 (length tags) \<le> length (take 5 tags)" by simp
  have k2: "2 \<le> length (take 5 gen)" using two by simp
  have r1: "random_sample (slice_to tags 5) (min 3 (length tags)) g = Inr (s1, g1)"
    using k1 s1 by (simp add: random_sample_def slice_to_def)
  have r2: "random_sample (slice_to gen 5) 2 g1 = Inr (s2, g2)"
    using k2 s2 by (simp add: random_sample_def slice_to_def)
  have l1: "length s1 = min 3 (length tags)"
    using sample_pool_length [of "take 5 tags" "min 3 (length tags)" g] s1 by simp
  have l2: "length s2 = 2"
    using sample_pool_length [of "take 5 gen" 2 g1] s2 by simp
  have m1: "set s1 \<subseteq> set tags"
    using sample_pool_subset [OF k1, of g] s1 by (auto dest: in_set_takeD)
  have m2: "set s2 \<subseteq> set gen"
    using sample_pool_subset [OF k2, of g1] s2 by (auto dest: in_set_takeD)
  define tt where "tt = [lit ''#'' @ py_replace (lit '' '') [] (str_lower L topic),
                  lit ''#'' @ py_replace (lit '' '') [] (str_lower L topic) @ lit ''tips'',
                  lit ''#'' @ py_replace (lit '' '') [] (str_lower L topic) @ lit ''strategy'']"
  have res: "select_hashtags bank L industry topic g = Inr (s1 @ tt @ s2, g2)"
    using gen r1 r2 unfolding select_hashtags_def tags tt_def by (simp add: Let_def)
  have h: "\<forall>t \<in> set tt. startswith t (lit ''#'')"
    by (simp add: tt_def startswith_def lit_def)
  have "length (s1 @ tt @ s2) = min 3 (length tags) + 5"
    using l1 l2 by (simp add: tt_def)
  moreover have "\<forall>t \<in> set (s1 @ tt @ s2). t \<in> set tags \<or> t \<in> set gen \<or> startswith t (lit ''#'')"
    using m1 m2 h by auto
  ultimately show ?thesis using res by blast
qed

lemma HASHTAGS_general:
  "dict_lookup HASHTAGS (lit ''general'') =
     Some [lit ''#instagood'', lit ''#photooftheday'', lit ''#love'', lit ''#instadaily'',
           lit ''#follow'', lit ''#like'', lit ''#picoftheday'', lit ''#beautiful'',
           lit ''#happy'', lit ''#life'']"
  by (simp add: HASHTAGS_def dict_lookup_def lit_def)

lemma HASHTAGS_banks:
  "list_all (\<lambda>(k, ts). length ts = 10 \<and> list_all (\<lambda>t. startswith t (lit ''#'')) ts) HASHTAGS"
  by (simp add: HASHTAGS_def startswith_def lit_def)

lemma generate_hashtags_total:
  "\<exists>tags g'. generate_hashtags L industry topic g = Inr (tags, g')
     \<and> list_all (\<lambda>t. startswith t (lit ''#'')) tags \<and> length tags \<le> 8"
proof -
  obtain gen where gen: "dict_lookup HASHTAGS (lit ''general'') = Some gen"
    using HASHTAGS_general by blast
  define tags where "tags = (case dict_lookup HASHTAGS industry of Some ts \<Rightarrow> ts | None \<Rightarrow> gen)"
  have bank: "length ts = 10 \<and> list_all (\<lambda>t. startswith t (lit ''#'')) ts"
    if "dict_lookup HASHTAGS k = Some ts" for k ts
    using dict_lookup_in [OF that] HASHTAGS_banks by (auto simp: list_all_iff)
  have gen_ok: "length gen = 10 \<and> list_all (\<lambda>t. startswith t (lit ''#'')) gen"
    using bank [OF gen] .
  have tags_ok: "length tags = 10 \<and> list_all (\<lambda>t. startswith t (lit ''#'')) tags"
    unfolding tags_def using bank gen_ok by (cases "dict_lookup HASHTAGS industry") auto
  from gen_ok have two: "2 \<le> length gen" by simp
  from select_hashtags_ok [OF gen two tags_def, of L topic g]
  obtain selected g1 where sel: "select_hashtags HASHTAGS L industry topic g = Inr (selected, g1)"
    and len: "length selected = min 3 (length tags) + 5"
    and mem: "\<forall>t \<in> set selected. t \<in> set tags \<or> t \<in> set gen \<or> startswith t (lit ''#'')"
    by blast
  obtain out g2 where out: "list_of_set selected g1 = (out, g2)"
    by (cases "list_of_set selected g1")
  have res: "generate_hashtags L industry topic g = Inr (out, g2)"
    using sel out by (simp add: generate_hashtags_def generate_hashtags_with_def)
  have "length out \<le> length selected"
    using list_of_set_length [of selected g1] out by simp
  then have l8: "length out \<le> 8" using len tags_ok by simp
  have "set out \<subseteq> set selected"
    using list_of_set_subset [of selected g1] out by simp
  then have "list_all (\<lambda>t. startswith t (lit ''#'')) out"
    using mem gen_ok tags_ok by (auto simp: list_all_iff)
  with res l8 show ?thesis by blast
qed

text \<open>
  C4. For every industry key (the supported ones, and any other, which falls back to the
  general bank) and every topic, the hashtag generator returns a list; each element starts
  with \<open>#\<close> and the list has at most 8 elements.
\<close>

theorem generate_hashtags_prefixed:
  "\<exists>tags g'. generate_hashtags L industry topic g = Inr (tags, g')
     \<and> list_all (\<lambda>t. startswith t (lit ''#'')) tags \<and> length tags \<le> 8"
  by (rule generate_hashtags_total)

lemma name_not_digits: "field \<noteq> [] \<Longrightarrow> list_all is_name_char field \<Longrightarrow> \<not> list_all is_digit field"
  by (cases field) (auto simp: is_name_char_def is_digit_def)

lemma str_format_plain:
  "plain_template m s \<Longrightarrow>
     (\<exists>k. str_format vars m s = Inl (KeyError k))
     \<or> (\<exists>r. str_format vars m s = Inr r
            \<and> set r \<subseteq> {c. c \<noteq> 123 \<and> c \<noteq> 125} \<union> (\<Union>(k, v) \<in> set vars. set v))"
proof (induction vars m s rule: str_format.induct)
  case (1 vars)
  show ?case by simp
next
  case (2 vars field)
  then show ?case by simp
next
  case (3 vars field c cs)
  show ?case
  proof (cases "c = 125")
    case True
    with "3.prems" have f: "field \<noteq> []" "list_all is_name_char field" and p: "plain_template None cs"
      by simp_all
    from name_not_digits [OF f] have nd: "\<not> list_all is_digit field" .
    show ?thesis
    proof (cases "dict_lookup vars field")
      case None
      with True f nd show ?thesis by simp
    next
      case (Some v)
      from dict_lookup_in [OF Some] have v: "set v \<subseteq> (\<Union>(k, v) \<in> set vars. set v)" by auto
      from "3.IH"(1) [OF True _ Some p] f nd
      have "(\<exists>k. str_format vars None cs = Inl (KeyError k))
            \<or> (\<exists>r. str_format vars None cs = Inr r
                 \<and> set r \<subseteq> {c. c \<noteq> 123 \<and> c \<noteq> 125} \<union> (\<Union>(k, v) \<in> set vars. set v))"
        by simp
      then show ?thesis using True f nd Some v by auto
    qed
  next
    case False
    with "3.prems" have c: "c \<noteq> 123" and p: "plain_template (Some (field @ [c])) cs" by simp_all
    from "3.IH"(2) [OF False c p] show ?thesis using False c by simp
  qed
next
  case (4 vars c)
  then show ?case by simp
next
  case (5 vars c d ds)
  show ?case
  proof (cases "c = 123")
    case True
    with "5.prems" have d: "d \<noteq> 123" and p: "plain_template (Some []) (d # ds)"
      by (simp_all del: plain_template.simps(3))
    from "5.IH"(2) [OF True d p] show ?thesis using True d
      by (simp del: str_format.simps(3))
  next
    case False
    with "5.prems" have c: "c \<noteq> 125" and p: "plain_template None (d # ds)" by simp_all
    from "5.IH"(4) [OF False c p] show ?thesis using False c by auto
  qed
qed

lemma py_replace_single: "py_replace [c] [] x = filter (\<lambda>a. a \<noteq> c) x"
  by (induction x) (auto simp: startswith_def)

lemma strip_braces_set: "set (strip_braces t) \<subseteq> {c. c \<noteq> 123 \<and> c \<noteq> 125}"
  by (auto simp: strip_braces_def lit_def py_replace_single)

lemma format_or_strip_plain:
  assumes "plain_template None t"
  shows "\<exists>r. format_or_strip vars t = Inr r
           \<and> set r \<subseteq> {c. c \<noteq> 123 \<and> c \<noteq> 125} \<union> (\<Union>(k, v) \<in> set vars. set v)"
  using str_format_plain [OF assms, of vars] strip_braces_set [of t]
  by (auto simp: format_or_strip_def)

lemma random_choice_ok:
  "xs \<noteq> [] \<Longrightarrow> \<exists>x g'. random_choice xs g = Inr (x, g') \<and> x \<in> set xs"
  by (cases "draw g") (simp add: random_choice_def)

lemma HOOKS_plain:
  "list_all (\<lambda>(k, hs). hs \<noteq> [] \<and> list_all (plain_template None) hs) HOOKS"
  by (simp add: HOOKS_def lit_def is_name_char_def)

lemma HOOKS_general: "\<exists>hs. dict_lookup HOOKS (lit ''general'') = Some hs"
  by (simp add: HOOKS_def dict_lookup_def lit_def)

lemma generate_hook_total:
  "\<exists>hook g'. generate_hook industry topic g = Inr (hook, g')
     \<and> set hook \<subseteq> {c. c \<noteq> 123 \<and> c \<noteq> 125} \<union> (\<Union>(k, v) \<in> set (hook_variables topic). set v)"
proof -
  obtain gh where gh: "dict_lookup HOOKS (lit ''general'') = Some gh"
    using HOOKS_general by blast
  define hs where "hs = (case dict_lookup HOOKS industry of Some hs \<Rightarrow> hs | None \<Rightarrow> gh)"
  have bank: "hs' \<noteq> [] \<and> list_all (plain_template None) hs'"
    if "dict_lookup HOOKS k = Some hs'" for k hs'
    using dict_lookup_in [OF that] HOOKS_plain by (auto simp: list_all_iff)
  have hs_ok: "hs \<noteq> [] \<and> list_all (plain_template None) hs"
    unfolding hs_def using bank [OF gh] bank by (cases "dict_lookup HOOKS industry") auto
  then obtain t g' where ch: "random_choice hs g = Inr (t, g')" and t: "t \<in> set hs"
    using random_choice_ok [of hs g] by blast
  from hs_ok t have "plain_template None t" by (simp add: list_all_iff)
  from format_or_strip_plain [OF this, of "hook_variables topic"]
  obtain r where r: "format_or_strip (hook_variables topic) t = Inr r"
    and sub: "set r \<subseteq> {c. c \<noteq> 123 \<and> c \<noteq> 125} \<union> (\<Union>(k, v) \<in> set (hook_variables topic). set v)"
    by blast
  have "generate_hook industry topic g = Inr (r, g')"
    using gh ch r by (simp add: generate_hook_def hs_def Let_def)
  with sub show ?thesis by blast
qed

lemma hook_variables_braceless:
  assumes "123 \<notin> set topic" "125 \<notin> set topic"
  shows "(\<Union>(k, v) \<in> set (hook_variables topic). set v) \<subseteq> {c. c \<noteq> 123 \<and> c \<noteq> 125}"
  using assms by (auto simp: hook_variables_def lit_def)

text \<open>
  C6 (as amended). For every industry key and every topic that itself contains no brace,
  the hook generator returns a string without \<open>{\<close> and without \<open>}\<close>, whatever template
  is drawn.
\<close>

theorem generate_hook_braceless:
  assumes "123 \<notin> set topic" and "125 \<notin> set topic"
  shows "\<exists>hook g'. generate_hook industry topic g = Inr (hook, g')
           \<and> 123 \<notin> set hook \<and> 125 \<notin> set hook"
  using generate_hook_total [of industry topic g] hook_variables_braceless [OF assms]
  by blast

theorem generate_hook_braceless_witness:
  "123 \<notin> set (lit ''email'') \<and> 125 \<notin> set (lit ''email'')
   \<and> (\<exists>hook g'. generate_hook (lit ''ecommerce'') (lit ''email'') [7] = Inr (hook, g')
         \<and> 123 \<notin> set hook \<and> 125 \<notin> set hook)"
  using generate_hook_braceless [of "lit ''email''" "lit ''ecommerce''" "[7]"]
  by (simp add: lit_def)

text \<open>
  C6 as stated fails when the topic contains a brace: the substituted values are copied
  into the hook as they are.
\<close>

theorem generate_hook_brace_in_topic:
  "generate_hook (lit ''ecommerce'') (lit ''{'') [7]
     = Inr (lit ''The truth about { nobody talks about'', [])
   \<and> 123 \<in> set (lit ''The truth about { nobody talks about'')"
  by (simp add: generate_hook_def HOOKS_def dict_lookup_def lit_def random_choice_def
      format_or_strip_def hook_variables_def is_digit_def)

text \<open>Two calls with the same inputs can return different hooks.\<close>

lemma generate_hook_varies:
  "generate_hook (lit ''fitness'') (lit ''yoga'') [1] \<noteq> generate_hook (lit ''fitness'') (lit ''yoga'') [2]"
  by (simp add: generate_hook_def HOOKS_def dict_lookup_def lit_def random_choice_def
      format_or_strip_def hook_variables_def is_digit_def strip_braces_def startswith_def)

lemma CAROUSEL_titles_plain:
  "list_all (\<lambda>(k, t). tpl_titles t \<noteq> [] \<and> list_all (plain_template None) (tpl_titles t))
     CAROUSEL_TEMPLATES"
  by (simp add: CAROUSEL_TEMPLATES_def lit_def is_name_char_def)

lemma CAROUSEL_tips: "\<exists>t. dict_lookup CAROUSEL_TEMPLATES (lit ''tips'') = Some t"
  by (simp add: CAROUSEL_TEMPLATES_def dict_lookup_def lit_def)

lemma get_template_ok:
  "\<exists>t. get_template template_type = Inr t \<and> tpl_titles t \<noteq> []
       \<and> list_all (plain_template None) (tpl_titles t)"
proof -
  obtain d where d: "dict_lookup CAROUSEL_TEMPLATES (lit ''tips'') = Some d"
    using CAROUSEL_tips by blast
  have ok: "tpl_titles t \<noteq> [] \<and> list_all (plain_template None) (tpl_titles t)"
    if "dict_lookup CAROUSEL_TEMPLATES k = Some t" for k t
    using dict_lookup_in [OF that] CAROUSEL_titles_plain by (auto simp: list_all_iff)
  show ?thesis
  proof (cases "dict_lookup CAROUSEL_TEMPLATES template_type")
    case None
    with d ok [OF d] show ?thesis by (simp add: get_template_def)
  next
    case (Some t)
    with d ok [OF Some] show ?thesis by (simp add: get_template_def)
  qed
qed

lemma generate_caption_ok: "\<exists>caption g'. generate_caption brand topic hook g = Inr (caption, g')"
  by (simp add: generate_caption_def random_choice_def Let_def split: prod.splits)

lemma select_cta_ok: "\<exists>cta g'. select_cta L topic g = Inr (cta, g')"
  by (simp add: select_cta_def random_choice_def CTAS_def split: prod.splits)

lemma optimal_posting_time_ok: "\<exists>t. optimal_posting_time target_audience = Inr t"
  by (simp add: optimal_posting_time_def times_def dict_lookup_def lit_def split: option.splits)

lemma fill_template_ok:
  assumes "plain_template None t"
  shows "\<exists>title g'. fill_template L t topic g = Inr (title, g')"
proof -
  obtain number g' where n: "random_choice [lit ''3'', lit ''5'', lit ''7'', lit ''10''] g = Inr (number, g')"
    using random_choice_ok [of "[lit ''3'', lit ''5'', lit ''7'', lit ''10'']" g] by auto
  define variables where "variables =
     [(lit ''number'', number), (lit ''topic'', str_title L topic),
      (lit ''goal'', lit ''Master '' @ topic), (lit ''start'', lit ''Beginner''),
      (lit ''end'', lit ''Pro''), (lit ''problem'', topic @ lit '' issues''),
      (lit ''action'', topic), (lit ''cost'', lit ''thousands'')]"
  obtain r where "format_or_strip variables t = Inr r"
    using format_or_strip_plain [OF assms, of variables] by blast
  with n show ?thesis
    by (simp add: fill_template_def Let_def variables_def)
qed

lemma generate_hashtags_ok: "\<exists>tags g'. generate_hashtags L industry topic g = Inr (tags, g')"
  using generate_hashtags_total [of L industry topic g] by blast

lemma carousel_for_ok:
  "\<exists>content g'. carousel_for L brand topic template_type num_slides g = Inr (content, g')"
proof -
  obtain template where t: "get_template template_type = Inr template"
    and ne: "tpl_titles template \<noteq> []"
    and pl: "list_all (plain_template None) (tpl_titles template)"
    using get_template_ok by blast
  obtain hook g1 where h: "generate_hook (bp_industry brand) topic g = Inr (hook, g1)"
    using generate_hook_total by blast
  obtain caption g2 where c: "generate_caption brand topic hook g1 = Inr (caption, g2)"
    using generate_caption_ok by blast
  obtain hashtags g3 where ht: "generate_hashtags L (bp_industry brand) topic g2 = Inr (hashtags, g3)"
    using generate_hashtags_ok by blast
  obtain cta g4 where ct: "select_cta L topic g3 = Inr (cta, g4)"
    using select_cta_ok by blast
  obtain best where b: "optimal_posting_time (bp_target_audience brand) = Inr best"
    using optimal_posting_time_ok by blast
  obtain tt g5 where ch: "random_choice (tpl_titles template) g4 = Inr (tt, g5)"
    and mem: "tt \<in> set (tpl_titles template)"
    using random_choice_ok [OF ne] by blast
  from pl mem have "plain_template None tt" by (simp add: list_all_iff)
  then obtain title g6 where f: "fill_template L tt topic g5 = Inr (title, g6)"
    using fill_template_ok by blast
  show ?thesis
    unfolding carousel_for_def by (simp add: t h c ht ct b ch f Let_def)
qed

lemma generate_carousel_ok:
  assumes "brands self brand_name = Some brand"
  shows "\<exists>content g'. generate_carousel L brand_name topic template_type num_slides self g
           = (Inr (content, g'), self)"
  using assms carousel_for_ok [of L brand topic template_type num_slides g]
  by (auto simp: generate_carousel_def)

lemma mset_butlast_last: "xs \<noteq> [] \<Longrightarrow> mset (butlast xs) = mset xs - {#last xs#}"
proof -
  assume "xs \<noteq> []"
  then have "xs = butlast xs @ [last xs]" by simp
  then have "mset xs = add_mset (last xs) (mset (butlast xs))"
    by (metis mset.simps(2) mset_append add_mset_add_single union_mset_add_mset_right mset.simps(1) add.right_neutral)
  then show ?thesis by simp
qed

lemma pool_remove:
  assumes "j < length pool"
  shows "mset (butlast (pool[j := last pool])) = mset pool - {#pool ! j#}"
proof -
  from assms have ne: "pool \<noteq> []" by auto
  then have ne': "pool[j := last pool] \<noteq> []" by simp
  have l: "last (pool[j := last pool]) = last pool"
    using ne by (simp add: last_list_update)
  have "mset (butlast (pool[j := last pool])) = mset (pool[j := last pool]) - {#last pool#}"
    using mset_butlast_last [OF ne'] l by simp
  also have "\<dots> = add_mset (last pool) (mset pool - {#pool ! j#}) - {#last pool#}"
    using assms by (simp add: mset_update)
  finally show ?thesis by simp
qed

lemma sample_pool_mset:
  "k \<le> length pool \<Longrightarrow> mset (fst (sample_pool pool k g)) \<subseteq># mset pool"
proof (induction k arbitrary: pool g)
  case 0
  show ?case by simp
next
  case (Suc k)
  obtain r g1 where d: "draw g = (r, g1)" by (cases "draw g")
  define j where "j = r mod length pool"
  define pool' where "pool' = butlast (pool[j := last pool])"
  from Suc.prems have ne: "pool \<noteq> []" by auto
  then have j: "j < length pool" by (simp add: j_def)
  have rem: "mset pool' = mset pool - {#pool ! j#}"
    unfolding pool'_def by (rule pool_remove [OF j])
  have len: "k \<le> length pool'" using Suc.prems by (simp add: pool'_def)
  obtain rest g2 where sp: "sample_pool pool' k g1 = (rest, g2)" by (cases "sample_pool pool' k g1")
  from Suc.IH [OF len, of g1] sp have sub: "mset rest \<subseteq># mset pool - {#pool ! j#}"
    by (simp add: rem)
  have mem: "pool ! j \<in># mset pool" using j by simp
  have res: "fst (sample_pool pool (Suc k) g) = pool ! j # rest"
    using d sp by (simp add: Let_def j_def pool'_def)
  have "add_mset (pool ! j) (mset rest) \<subseteq># add_mset (pool ! j) (mset pool - {#pool ! j#})"
    using sub by simp
  also have "\<dots> = mset pool" using mem by simp
  finally have "mset (pool ! j # rest) \<subseteq># mset pool" by simp
  then show ?case by (simp only: res)
qed

lemma list_of_set_mset: "mset (fst (list_of_set xs g)) = mset (remdups xs)"
proof -
  let ?out = "fst (list_of_set xs g)"
  have sub: "mset ?out \<subseteq># mset (remdups xs)"
    using sample_pool_mset [of "length (remdups xs)" "remdups xs" g] by (simp add: list_of_set_def)
  have "size (mset ?out) = size (mset (remdups xs))"
    by (simp add: list_of_set_def sample_pool_length)
  with sub show ?thesis
    by (metis mset_subset_size subset_mset.le_neq_trans less_irrefl)
qed

lemma list_of_set_distinct:
  "distinct (fst (list_of_set xs g)) \<and> set (fst (list_of_set xs g)) = set xs"
  using list_of_set_mset [of xs g]
  by (metis distinct_remdups mset_eq_imp_distinct_iff mset_eq_setD set_remdups)

lemma select_hashtags_shape:
  assumes gen: "dict_lookup bank (lit ''general'') = Some gen"
    and two: "2 \<le> length gen"
    and tags: "tags = (case dict_lookup bank industry of Some ts \<Rightarrow> ts | None \<Rightarrow> gen)"
  shows "\<exists>s1 s2 g'.
           select_hashtags bank L industry topic g
             = Inr (s1 @ [lit ''#'' @ py_replace (lit '' '') [] (str_lower L topic),
                          lit ''#'' @ py_replace (lit '' '') [] (str_lower L topic) @ lit ''tips'',
                          lit ''#'' @ py_replace (lit '' '') [] (str_lower L topic) @ lit ''strategy'']
                       @ s2, g')
           \<and> length s1 = min 3 (length tags) \<and> mset s1 \<subseteq># mset (take 5 tags)
           \<and> length s2 = 2 \<and> mset s2 \<subseteq># mset (take 5 gen)"
proof -
  obtain s1 g1 where s1: "sample_pool (take 5 tags) (min 3 (length tags)) g = (s1, g1)"
    by (cases "sample_pool (take 5 tags) (min 3 (length tags)) g")
  obtain s2 g2 where s2: "sample_pool (take 5 gen) 2 g1 = (s2, g2)"
    by (cases "sample_pool (take 5 gen) 2 g1")
  have k1: "min 3 (length tags) \<le> length (take 5 tags)" by simp
  have k2: "2 \<le> length (take 5 gen)" using two by simp
  have r1: "random_sample (slice_to tags 5) (min 3 (length tags)) g = Inr (s1, g1)"
    using k1 s1 by (simp add: random_sample_def slice_to_def)
  have r2: "random_sample (slice_to gen 5) 2 g1 = Inr (s2, g2)"
    using k2 s2 by (simp add: random_sample_def slice_to_def)
  have l1: "length s1 = min 3 (length tags)"
    using sample_pool_length [of "take 5 tags" "min 3 (length tags)" g] s1 by simp
  have l2: "length s2 = 2"
    using sample_pool_length [of "take 5 gen" 2 g1] s2 by simp
  have m1: "mset s1 \<subseteq># mset (take 5 tags)"
    using sample_pool_mset [OF k1, of g] s1 by simp
  have m2: "mset s2 \<subseteq># mset (take 5 gen)"
    using sample_pool_mset [OF k2, of g1] s2 by simp
  have "select_hashtags bank L industry topic g
          = Inr (s1 @ [lit ''#'' @ py_replace (lit '' '') [] (str_lower L topic),
                       lit ''#'' @ py_replace (lit '' '') [] (str_lower L topic) @ lit ''tips'',
                       lit ''#'' @ py_replace (lit '' '') [] (str_lower L topic) @ lit ''strategy'']
                    @ s2, g2)"
    using gen r1 r2 unfolding select_hashtags_def tags by (simp add: Let_def)
  with l1 l2 m1 m2 show ?thesis by blast
qed

lemma add_days_ok:
  "1 \<le> start_date \<Longrightarrow> start_date + int i \<le> max_ordinal
   \<Longrightarrow> add_days start_date i = Inr (start_date + int i)"
  by (simp add: add_days_def max_ordinal_def)

lemma calendar_loop_ok:
  assumes reg: "brands self brand_name = Some b0"
    and ne: "bp_content_pillars brand \<noteq> []"
    and st: "1 \<le> start_date"
    and range: "\<forall>i \<in> set days. start_date + int i \<le> max_ordinal"
  shows "\<exists>cal g'. calendar_loop L brand_name brand start_date days calendar self g
                    = (Inr (cal, g'), self)
           \<and> map ce_topic cal = map ce_topic calendar
               @ map (\<lambda>i. bp_content_pillars brand ! (i mod length (bp_content_pillars brand))) days"
  using range
proof (induction days arbitrary: calendar g)
  case Nil
  show ?case by simp
next
  case (Cons i days)
  from Cons.prems have ad: "add_days start_date i = Inr (start_date + int i)"
    using add_days_ok [OF st] by simp
  from Cons.prems have rest: "\<forall>i \<in> set days. start_date + int i \<le> max_ordinal" by simp
  obtain tt g1 where ch: "random_choice [lit ''tips'', lit ''mistakes'', lit ''steps''] g = Inr (tt, g1)"
    using random_choice_ok [of "[lit ''tips'', lit ''mistakes'', lit ''steps'']" g] by auto
  define pillar where "pillar = bp_content_pillars brand ! (i mod length (bp_content_pillars brand))"
  obtain content g2 where gc: "generate_carousel L brand_name pillar tt 7 self g1 = (Inr (content, g2), self)"
    using generate_carousel_ok [OF reg] by blast
  define entry where "entry =
     \<lparr>ce_date = strftime_date L (start_date + int i), ce_day = strftime_day L (start_date + int i),
      ce_content_type = cp_content_type content, ce_title = cp_title content,
      ce_topic = pillar, ce_engagement_score = cp_engagement_score content,
      ce_best_time = cp_best_posting_time content,
      ce_caption_preview = slice_to (cp_caption content) 100 @ lit ''...'',
      ce_hashtags = cp_hashtags content\<rparr>"
  have step: "calendar_loop L brand_name brand start_date (i # days) calendar self g
              = calendar_loop L brand_name brand start_date days (calendar @ [entry]) self g2"
    using ne ch gc ad by (simp add: Let_def pillar_def [symmetric] entry_def)
  from Cons.IH [OF rest, of "calendar @ [entry]" g2] obtain cal g'
    where r: "calendar_loop L brand_name brand start_date days (calendar @ [entry]) self g2
              = (Inr (cal, g'), self)"
      and m: "map ce_topic cal = map ce_topic (calendar @ [entry])
               @ map (\<lambda>i. bp_content_pillars brand ! (i mod length (bp_content_pillars brand))) days"
    by blast
  have "ce_topic entry = pillar" by (simp add: entry_def)
  with m have "map ce_topic cal = map ce_topic calendar
       @ map (\<lambda>i. bp_content_pillars brand ! (i mod length (bp_content_pillars brand))) (i # days)"
    by (simp add: pillar_def)
  with step r show ?case by auto
qed

text \<open>
  C8 (as amended). For a registered brand with \<open>P > 0\<close> content pillars and a requested
  number of days \<open>d \<ge> 0\<close>, as long as the dates generated stay within the range of
  \<open>datetime\<close> (up to 9999-12-31), \<open>generate_content_calendar\<close> returns exactly
  \<open>min(d, 2 * P)\<close> day records, and the topic of record \<open>i\<close> is pillar \<open>i mod P\<close>. With
  3 pillars and 10 days that is 6 records.
\<close>

theorem content_calendar_days:
  assumes "brands self brand_name = Some brand" and "bp_content_pillars brand \<noteq> []"
    and "0 \<le> days" and "1 \<le> start_date"
    and "start_date + min days (2 * int (length (bp_content_pillars brand))) \<le> max_ordinal + 1"
  shows "\<exists>cal g'. generate_content_calendar L start_date brand_name days self g
                    = (Inr (cal, g'), self)
           \<and> int (length cal) = min days (2 * int (length (bp_content_pillars brand)))
           \<and> (\<forall>i < length cal.
                 ce_topic (cal ! i)
                 = bp_content_pillars brand ! (i mod length (bp_content_pillars brand)))"
proof -
  define n where "n = nat (min days (int (length (bp_content_pillars brand)) * 2))"
  have n: "int n = min days (2 * int (length (bp_content_pillars brand)))"
    using assms(3) by (simp add: n_def mult.commute)
  have range: "\<forall>i \<in> set [0 ..< n]. start_date + int i \<le> max_ordinal"
    using assms(5) n by auto
  from calendar_loop_ok [OF assms(1) assms(2) assms(4) range, of L "[]" g] obtain cal g'
    where r: "calendar_loop L brand_name brand start_date [0 ..< n] [] self g = (Inr (cal, g'), self)"
      and m: "map ce_topic cal
              = map (\<lambda>i. bp_content_pillars brand ! (i mod length (bp_content_pillars brand))) [0 ..< n]"
    by auto
  from m have len: "length cal = n" by (metis length_map length_upt minus_nat.diff_0)
  have topic: "ce_topic (cal ! i) = bp_content_pillars brand ! (i mod length (bp_content_pillars brand))"
    if "i < length cal" for i
  proof -
    have "ce_topic (cal ! i) = map ce_topic cal ! i" using that by simp
    also have "\<dots> = bp_content_pillars brand ! (i mod length (bp_content_pillars brand))"
      using that len by (simp add: m)
    finally show ?thesis .
  qed
  have "generate_content_calendar L start_date brand_name days self g = (Inr (cal, g'), self)"
    using assms(1) r by (simp add: generate_content_calendar_def n_def)
  moreover have "int (length cal) = min days (2 * int (length (bp_content_pillars brand)))"
    using len n by simp
  ultimately show ?thesis using topic by blast
qed

theorem content_calendar_days_witness:
  "brands (init_forge\<lparr>brands := [lit ''BrandX'' \<mapsto> brand_x]\<rparr>) (lit ''BrandX'') = Some brand_x
   \<and> bp_content_pillars brand_x \<noteq> []
   \<and> (0::int) \<le> 10 \<and> (1::int) \<le> 739923
   \<and> 739923 + min 10 (2 * int (length (bp_content_pillars brand_x))) \<le> max_ordinal + 1
   \<and> length (bp_content_pillars brand_x) = 3
   \<and> (\<exists>cal g'. generate_content_calendar ascii_lib 739923 (lit ''BrandX'') 10
                   (init_forge\<lparr>brands := [lit ''BrandX'' \<mapsto> brand_x]\<rparr>) [4, 2]
                 = (Inr (cal, g'), init_forge\<lparr>brands := [lit ''BrandX'' \<mapsto> brand_x]\<rparr>)
         \<and> length cal = 6
         \<and> ce_topic (cal ! 4) = lit ''nutrition'')"
proof -
  have a: "brands (init_forge\<lparr>brands := [lit ''BrandX'' \<mapsto> brand_x]\<rparr>) (lit ''BrandX'') = Some brand_x"
    by simp
  have b: "bp_content_pillars brand_x \<noteq> []" by (simp add: brand_x_def)
  have c: "length (bp_content_pillars brand_x) = 3" by (simp add: brand_x_def)
  have d: "(0::int) \<le> 10" by simp
  have e: "(1::int) \<le> 739923" by simp
  have f: "739923 + min 10 (2 * int (length (bp_content_pillars brand_x))) \<le> max_ordinal + 1"
    by (simp add: c max_ordinal_def)
  from content_calendar_days [OF a b d e f, of ascii_lib "[4, 2]"] obtain cal g'
    where r: "generate_content_calendar ascii_lib 739923 (lit ''BrandX'') 10
                (init_forge\<lparr>brands := [lit ''BrandX'' \<mapsto> brand_x]\<rparr>) [4, 2]
              = (Inr (cal, g'), init_forge\<lparr>brands := [lit ''BrandX'' \<mapsto> brand_x]\<rparr>)"
      and l: "int (length cal) = min 10 (2 * int (length (bp_content_pillars brand_x)))"
      and t: "\<forall>i < length cal. ce_topic (cal ! i)
                = bp_content_pillars brand_x ! (i mod length (bp_content_pillars brand_x))"
    by blast
  from l c have l6: "length cal = 6" by simp
  with t c have "ce_topic (cal ! 4) = bp_content_pillars brand_x ! (4 mod 3)" by force
  then have "ce_topic (cal ! 4) = lit ''nutrition''" by (simp add: brand_x_def)
  with a b c d e f r l6 show ?thesis by blast
qed

text \<open>
  C8 as stated fails for a negative number of days: the range is empty and the calendar
  has no record, which is not \<open>min(d, 2 * P)\<close>. It also fails when a date passes
  9999-12-31: on that last day a calendar of 2 days raises \<open>OverflowError\<close>.
\<close>

theorem content_calendar_negative_days:
  "generate_content_calendar ascii_lib 739923 (lit ''BrandX'') (- 1)
      (init_forge\<lparr>brands := [lit ''BrandX'' \<mapsto> brand_x]\<rparr>) [4, 2]
     = (Inr ([], [4, 2]), init_forge\<lparr>brands := [lit ''BrandX'' \<mapsto> brand_x]\<rparr>)
   \<and> int (length ([] :: calendar_entry list))
       \<noteq> min (- 1) (2 * int (length (bp_content_pillars brand_x)))
   \<and> fst (generate_content_calendar ascii_lib 3652059 (lit ''BrandX'') 2
            (init_forge\<lparr>brands := [lit ''BrandX'' \<mapsto> brand_x]\<rparr>) [4, 2])
     = Inl (OverflowError (lit ''date value out of range''))"
proof -
  let ?S = "init_forge\<lparr>brands := [lit ''BrandX'' \<mapsto> brand_x]\<rparr>"
  have a: "brands ?S (lit ''BrandX'') = Some brand_x" by simp
  have b: "bp_content_pillars brand_x \<noteq> []" by (simp add: brand_x_def)
  have c: "length (bp_content_pillars brand_x) = 3" by (simp add: brand_x_def)
  have neg: "generate_content_calendar ascii_lib 739923 (lit ''BrandX'') (- 1) ?S [4, 2]
             = (Inr ([], [4, 2]), ?S)"
    by (simp add: generate_content_calendar_def)
  have ineq: "int (length ([] :: calendar_entry list))
       \<noteq> min (- 1) (2 * int (length (bp_content_pillars brand_x)))"
    by (simp add: c)
  have days: "[0 ..< nat (min 2 (int (length (bp_content_pillars brand_x)) * 2))] = [0, Suc 0]"
    by (simp add: c numeral_2_eq_2)
  have a0: "add_days 3652059 0 = Inr 3652059"
    by (simp add: add_days_def max_ordinal_def)
  have a1: "add_days 3652059 (Suc 0) = Inl (OverflowError (lit ''date value out of range''))"
    by (simp add: add_days_def max_ordinal_def)
  obtain tt g1 where ch: "random_choice [lit ''tips'', lit ''mistakes'', lit ''steps''] [4, 2] = Inr (tt, g1)"
    using random_choice_ok [of "[lit ''tips'', lit ''mistakes'', lit ''steps'']" "[4, 2]"] by auto
  obtain content g2
    where gc: "generate_carousel ascii_lib (lit ''BrandX'') (bp_content_pillars brand_x ! 0) tt 7 ?S g1
               = (Inr (content, g2), ?S)"
    using generate_carousel_ok [OF a] by blast
  have "fst (generate_content_calendar ascii_lib 3652059 (lit ''BrandX'') 2 ?S [4, 2])
        = Inl (OverflowError (lit ''date value out of range''))"
    using a b by (simp add: generate_content_calendar_def days a0 a1 ch gc Let_def)
  with neg ineq show ?thesis by simp
qed

text \<open>
  C7 (as amended). When the bank of the requested industry has \<open>n < 5\<close> entries, the
  hashtag generator does not fail on it: it samples \<open>min(3, n)\<close> of the bank's entries
  without replacement (\<open>s1\<close>, all of them when \<open>n < 3\<close>), adds the three topic hashtags and 2
  entries sampled without replacement from the first 5 of the general bank (\<open>s2\<close>), and
  returns the distinct elements of that list. (The general bank must exist with at least 2
  entries.)
\<close>

theorem small_bank_sampled:
  assumes "dict_lookup bank (lit ''general'') = Some gen" and "2 \<le> length gen"
    and "dict_lookup bank industry = Some tags" and "length tags < 5"
  shows "\<exists>s1 s2 g1 out g2.
           select_hashtags bank L industry topic g
             = Inr (s1 @ [lit ''#'' @ py_replace (lit '' '') [] (str_lower L topic),
                          lit ''#'' @ py_replace (lit '' '') [] (str_lower L topic) @ lit ''tips'',
                          lit ''#'' @ py_replace (lit '' '') [] (str_lower L topic) @ lit ''strategy'']
                       @ s2, g1)
           \<and> length s1 = min 3 (length tags) \<and> mset s1 \<subseteq># mset tags
           \<and> length s2 = 2 \<and> mset s2 \<subseteq># mset (take 5 gen)
           \<and> generate_hashtags_with bank L industry topic g = Inr (out, g2)
           \<and> distinct out
           \<and> set out = set s1
               \<union> {lit ''#'' @ py_replace (lit '' '') [] (str_lower L topic),
                  lit ''#'' @ py_replace (lit '' '') [] (str_lower L topic) @ lit ''tips'',
                  lit ''#'' @ py_replace (lit '' '') [] (str_lower L topic) @ lit ''strategy''}
               \<union> set s2"
proof -
  define tt where "tt = [lit ''#'' @ py_replace (lit '' '') [] (str_lower L topic),
                  lit ''#'' @ py_replace (lit '' '') [] (str_lower L topic) @ lit ''tips'',
                  lit ''#'' @ py_replace (lit '' '') [] (str_lower L topic) @ lit ''strategy'']"
  have t: "tags = (case dict_lookup bank industry of Some ts \<Rightarrow> ts | None \<Rightarrow> gen)"
    using assms(3) by simp
  from select_hashtags_shape [OF assms(1) assms(2) t, of L topic g] obtain s1 s2 g1
    where s: "select_hashtags bank L industry topic g = Inr (s1 @ tt @ s2, g1)"
      and l1: "length s1 = min 3 (length tags)" and m1: "mset s1 \<subseteq># mset (take 5 tags)"
      and l2: "length s2 = 2" and m2: "mset s2 \<subseteq># mset (take 5 gen)"
    unfolding tt_def by blast
  from assms(4) m1 have m1': "mset s1 \<subseteq># mset tags" by simp
  obtain out g2 where o: "list_of_set (s1 @ tt @ s2) g1 = (out, g2)"
    by (cases "list_of_set (s1 @ tt @ s2) g1")
  with s have r: "generate_hashtags_with bank L industry topic g = Inr (out, g2)"
    by (simp add: generate_hashtags_with_def)
  from list_of_set_distinct [of "s1 @ tt @ s2" g1] o
  have d: "distinct out" and e: "set out = set (s1 @ tt @ s2)" by simp_all
  from e have e': "set out = set s1 \<union> set tt \<union> set s2" by auto
  show ?thesis
    using s l1 m1' l2 m2 r d e' unfolding tt_def by (intro exI conjI) simp_all
qed

lemma tiny_general:
  "dict_lookup (HASHTAGS @ [(lit ''tiny'', [lit ''#a'', lit ''#b''])]) (lit ''general'') =
     Some [lit ''#instagood'', lit ''#photooftheday'', lit ''#love'', lit ''#instadaily'',
           lit ''#follow'', lit ''#like'', lit ''#picoftheday'', lit ''#beautiful'',
           lit ''#happy'', lit ''#life'']"
  by (simp add: HASHTAGS_def dict_lookup_def lit_def)

lemma tiny_bank:
  "dict_lookup (HASHTAGS @ [(lit ''tiny'', [lit ''#a'', lit ''#b''])]) (lit ''tiny'')
     = Some [lit ''#a'', lit ''#b'']"
  by (simp add: HASHTAGS_def dict_lookup_def lit_def)

theorem small_bank_sampled_witness:
  "dict_lookup (HASHTAGS @ [(lit ''tiny'', [lit ''#a'', lit ''#b''])]) (lit ''general'') =
     Some [lit ''#instagood'', lit ''#photooftheday'', lit ''#love'', lit ''#instadaily'',
           lit ''#follow'', lit ''#like'', lit ''#picoftheday'', lit ''#beautiful'',
           lit ''#happy'', lit ''#life'']
   \<and> 2 \<le> length [lit ''#instagood'', lit ''#photooftheday'', lit ''#love'', lit ''#instadaily'',
           lit ''#follow'', lit ''#like'', lit ''#picoftheday'', lit ''#beautiful'',
           lit ''#happy'', lit ''#life'']
   \<and> dict_lookup (HASHTAGS @ [(lit ''tiny'', [lit ''#a'', lit ''#b''])]) (lit ''tiny'')
       = Some [lit ''#a'', lit ''#b'']
   \<and> length [lit ''#a'', lit ''#b''] < 5
   \<and> (\<exists>s1 s2 g1 out g2.
           select_hashtags (HASHTAGS @ [(lit ''tiny'', [lit ''#a'', lit ''#b''])]) ascii_lib
               (lit ''tiny'') (lit ''My Topic'') [1]
             = Inr (s1 @ [lit ''#'' @ py_replace (lit '' '') [] (str_lower ascii_lib (lit ''My Topic'')),
                          lit ''#'' @ py_replace (lit '' '') [] (str_lower ascii_lib (lit ''My Topic'')) @ lit ''tips'',
                          lit ''#'' @ py_replace (lit '' '') [] (str_lower ascii_lib (lit ''My Topic'')) @ lit ''strategy'']
                       @ s2, g1)
           \<and> length s1 = min 3 (length [lit ''#a'', lit ''#b''])
           \<and> mset s1 \<subseteq># mset [lit ''#a'', lit ''#b'']
           \<and> length s2 = 2
           \<and> mset s2 \<subseteq># mset (take 5 [lit ''#instagood'', lit ''#photooftheday'', lit ''#love'', lit ''#instadaily'',
           lit ''#follow'', lit ''#like'', lit ''#picoftheday'', lit ''#beautiful'',
           lit ''#happy'', lit ''#life''])
           \<and> generate_hashtags_with (HASHTAGS @ [(lit ''tiny'', [lit ''#a'', lit ''#b''])]) ascii_lib
                 (lit ''tiny'') (lit ''My Topic'') [1] = Inr (out, g2)
           \<and> distinct out
           \<and> set out = set s1
               \<union> {lit ''#'' @ py_replace (lit '' '') [] (str_lower ascii_lib (lit ''My Topic'')),
                  lit ''#'' @ py_replace (lit '' '') [] (str_lower ascii_lib (lit ''My Topic'')) @ lit ''tips'',
                  lit ''#'' @ py_replace (lit '' '') [] (str_lower ascii_lib (lit ''My Topic'')) @ lit ''strategy''}
               \<union> set s2)"
proof -
  have h: "length [lit ''#a'', lit ''#b''] < 5" by simp
  have two: "2 \<le> length [lit ''#instagood'', lit ''#photooftheday'', lit ''#love'', lit ''#instadaily'',
           lit ''#follow'', lit ''#like'', lit ''#picoftheday'', lit ''#beautiful'',
           lit ''#happy'', lit ''#life'']" by simp
  note inst = small_bank_sampled [OF tiny_general two tiny_bank h,
      of ascii_lib "lit ''My Topic''" "[1]"]
  show ?thesis
    by (rule conjI [OF tiny_general conjI [OF two conjI [OF tiny_bank conjI [OF h inst]]]])
qed

text \<open>
  C7 as stated fails: with a bank of 2 entries, from which 3 cannot be sampled, the
  generator returns 7 hashtags and raises nothing.
\<close>

theorem small_bank_no_error:
  "length [lit ''#a'', lit ''#b''] < 3
   \<and> generate_hashtags_with (HASHTAGS @ [(lit ''tiny'', [lit ''#a'', lit ''#b''])]) ascii_lib
       (lit ''tiny'') (lit ''My Topic'') [1]
     = Inr ([lit ''#b'', lit ''#follow'', lit ''#instagood'', lit ''#mytopicstrategy'',
             lit ''#mytopictips'', lit ''#mytopic'', lit ''#a''], [])"
  by code_simp

lemma calendar_loop_state:
  "snd (calendar_loop L brand_name brand start_date days calendar self g) = self"
proof (induction days arbitrary: calendar g)
  case Nil
  show ?case by simp
next
  case (Cons i days)
  then show ?case
    by (auto simp: Let_def generate_carousel_def split: sum.splits option.splits prod.splits)
qed

lemma state_after_frame: "\<not> is_create_brand c \<Longrightarrow> state_after L c self g = self"
  by (cases c)
     (simp_all add: generate_carousel_def generate_single_post_def generate_content_calendar_def
        calendar_loop_state split: option.splits)

lemma generate_colors_ok: "\<exists>colors g'. generate_colors g = Inr (colors, g')"
  by (simp add: generate_colors_def random_choice_def palettes_def split: prod.splits)

lemma create_brand_state:
  "\<exists>colors. snd (create_brand n i v t p f self g) =
      self\<lparr>brands := (brands self)(n \<mapsto>
             \<lparr>bp_name = n, bp_industry = i, bp_voice = v, bp_target_audience = t,
              bp_color_scheme = colors, bp_content_pillars = p, bp_posting_frequency = f\<rparr>)\<rparr>"
proof -
  obtain colors g' where "generate_colors g = Inr (colors, g')"
    using generate_colors_ok by blast
  then show ?thesis by (auto simp: create_brand_def Let_def)
qed

lemma state_after_history: "content_history (state_after L c self g) = content_history self"
proof (cases "is_create_brand c")
  case False
  then show ?thesis by (simp add: state_after_frame)
next
  case True
  then obtain n i v t p f where c: "c = Create_brand n i v t p f" by (cases c) auto
  show ?thesis using create_brand_state [of n i v t p f self g] by (auto simp: c)
qed

lemma run_history: "content_history (run L cs self) = content_history self"
  by (induction cs arbitrary: self) (auto simp: state_after_history)

text \<open>
  C10. A call other than \<open>create_brand\<close> (carousel, single post, calendar, and the hook,
  caption and hashtag helpers) leaves the state of the forge as it was, also when it
  raises; \<open>create_brand\<close> stores the new profile under the given name and changes nothing
  else; and after any sequence of calls from the initial state the content history is
  empty.
\<close>

theorem generation_leaves_state:
  "(\<not> is_create_brand c \<longrightarrow> state_after L c self g = self)
   \<and> (\<exists>colors. state_after L (Create_brand n i v t p f) self g =
         self\<lparr>brands := (brands self)(n \<mapsto>
               \<lparr>bp_name = n, bp_industry = i, bp_voice = v, bp_target_audience = t,
                bp_color_scheme = colors, bp_content_pillars = p, bp_posting_frequency = f\<rparr>)\<rparr>)
   \<and> content_history (run L calls init_forge) = []"
  using state_after_frame [of c L self g] create_brand_state [of n i v t p f self g]
    run_history [of L calls init_forge]
  by (simp add: init_forge_def)

theorem generation_leaves_state_witness:
  "\<not> is_create_brand (Generate_content_calendar 0 (lit ''BrandX'') 10)
   \<and> state_after ascii_lib (Generate_content_calendar 0 (lit ''BrandX'') 10)
       (init_forge\<lparr>brands := [lit ''BrandX'' \<mapsto> brand_x]\<rparr>) [4, 2]
     = init_forge\<lparr>brands := [lit ''BrandX'' \<mapsto> brand_x]\<rparr>
   \<and> content_history (run ascii_lib
        [(Create_brand (lit ''BrandX'') (lit ''fitness'') (lit ''friendly'') (lit ''students'')
            [lit ''core workouts''] 5, [3]),
         (Generate_carousel (lit ''BrandX'') (lit ''core workouts'') (lit ''steps'') 5, [1, 2])]
        init_forge) = []"
  using generation_leaves_state [of "Generate_content_calendar 0 (lit ''BrandX'') 10" ascii_lib
      "init_forge\<lparr>brands := [lit ''BrandX'' \<mapsto> brand_x]\<rparr>" "[4, 2]"
      "lit ''BrandX''" "lit ''fitness''" "lit ''friendly''" "lit ''students''"
      "[lit ''core workouts'']" 5
      "[(Create_brand (lit ''BrandX'') (lit ''fitness'') (lit ''friendly'') (lit ''students'')
            [lit ''core workouts''] 5, [3]),
         (Generate_carousel (lit ''BrandX'') (lit ''core workouts'') (lit ''steps'') 5, [1, 2])]"]
  by simp

lemma no_carousel_post:
  "forge_getattr ''generate_carousel_post''
     = Inl (AttributeError ([39] @ lit ''ContentForge' object has no attribute '' @ [39]
                            @ lit ''generate_carousel_post'' @ [39]))"
  by (simp add: forge_getattr_def ContentForge_attributes_def)

lemma no_generate_caption:
  "forge_getattr ''generate_caption''
     = Inl (AttributeError ([39] @ lit ''ContentForge' object has no attribute '' @ [39]
                            @ lit ''generate_caption'' @ [39]))"
  by (simp add: forge_getattr_def ContentForge_attributes_def)

text \<open>
  C1. The handler looks up \<open>generate_carousel_post\<close> on the forge, which \<open>ContentForge\<close>
  does not define: the request with the body \<open>{}\<close> (all defaults) gets the failure
  response with status 500, and so does every other request.
\<close>

theorem carousel_route_always_fails:
  "generate_carousel_route invoke (Some (JObj [])) self g
     = (\<lparr>resp_status = 500,
         resp_body = JObj [(lit ''success'', JBool False),
                           (lit ''error'', JStr ([39] @ lit ''ContentForge' object has no attribute ''
                                                 @ [39] @ lit ''generate_carousel_post'' @ [39]))]\<rparr>,
        self)
   \<and> resp_status (fst (generate_carousel_route invoke request self g)) = 500"
proof -
  have "generate_carousel_route invoke (Some (JObj [])) self g
        = (failure (AttributeError ([39] @ lit ''ContentForge' object has no attribute '' @ [39]
                            @ lit ''generate_carousel_post'' @ [39])), self)"
    by (simp add: generate_carousel_route_def get_json_def data_get_def dict_lookup_def
        no_carousel_post)
  moreover have "resp_status (fst (generate_carousel_route invoke request self g)) = 500"
    by (simp add: generate_carousel_route_def no_carousel_post failure_def split: sum.splits)
  ultimately show ?thesis by (simp add: failure_def)
qed

text \<open>
  C2. \<open>POST /generate/caption\<close> without a body gets the failure response with status 500,
  and so does the body \<open>{}\<close>: \<open>ContentForge\<close> defines no \<open>generate_caption\<close>.
\<close>

theorem caption_route_empty_body_fails:
  "resp_status (fst (generate_caption_route invoke None self g)) = 500
   \<and> (\<exists>msg. resp_body (fst (generate_caption_route invoke None self g))
              = JObj [(lit ''success'', JBool False), (lit ''error'', JStr msg)])
   \<and> generate_caption_route invoke (Some (JObj [])) self g
     = (\<lparr>resp_status = 500,
         resp_body = JObj [(lit ''success'', JBool False),
                           (lit ''error'', JStr ([39] @ lit ''ContentForge' object has no attribute ''
                                                 @ [39] @ lit ''generate_caption'' @ [39]))]\<rparr>,
        self)"
  by (simp add: generate_caption_route_def get_json_def data_get_def dict_lookup_def
      no_generate_caption failure_def)

lemma int_of_abc:
  "int_of_str (lit ''abc'')
     = Inl (ValueError (lit ''invalid literal for int() with base 10: '' @ [39] @ lit ''abc'' @ [39]))"
  by (simp add: int_of_str_def str_strip_def is_space_def is_digit_def py_repr_def lit_def)

text \<open>
  C9. A request to \<open>POST /generate/carousel\<close> whose body sets \<open>num_slides\<close> to the string
  \<open>abc\<close> gets status 500 and the body \<open>{success: false, error: msg}\<close> with the non-empty
  message of the \<open>ValueError\<close> raised by \<open>int\<close>.
\<close>

theorem carousel_route_bad_num_slides:
  assumes "dict_lookup entries (lit ''num_slides'') = Some (JStr (lit ''abc''))"
  shows "generate_carousel_route invoke (Some (JObj entries)) self g
     = (\<lparr>resp_status = 500,
         resp_body = JObj [(lit ''success'', JBool False),
                           (lit ''error'', JStr (lit ''invalid literal for int() with base 10: ''
                                                 @ [39] @ lit ''abc'' @ [39]))]\<rparr>,
        self)
   \<and> lit ''invalid literal for int() with base 10: '' @ [39] @ lit ''abc'' @ [39] \<noteq> []"
  using assms
  by (simp add: generate_carousel_route_def get_json_def data_get_def int_of_abc failure_def)

theorem carousel_route_bad_num_slides_witness:
  "dict_lookup [(lit ''topic'', JStr (lit ''SEO'')), (lit ''num_slides'', JStr (lit ''abc''))]
     (lit ''num_slides'') = Some (JStr (lit ''abc''))
   \<and> generate_carousel_route (\<lambda>m kw s r. (Inl (TypeError []), s))
        (Some (JObj [(lit ''topic'', JStr (lit ''SEO'')), (lit ''num_slides'', JStr (lit ''abc''))]))
        init_forge []
     = (\<lparr>resp_status = 500,
         resp_body = JObj [(lit ''success'', JBool False),
                           (lit ''error'', JStr (lit ''invalid literal for int() with base 10: ''
                                                 @ [39] @ lit ''abc'' @ [39]))]\<rparr>,
        init_forge)"
proof -
  have h: "dict_lookup [(lit ''topic'', JStr (lit ''SEO'')), (lit ''num_slides'', JStr (lit ''abc''))]
     (lit ''num_slides'') = Some (JStr (lit ''abc''))"
    by (simp add: dict_lookup_def lit_def)
  from carousel_route_bad_num_slides [OF h, of "\<lambda>m kw s r. (Inl (TypeError []), s)" init_forge "[]"] h show ?thesis by blast
qed

end
